theory Spec2Isabelle
  imports Main "HOL-Library.Word"
begin

section \<open>Data model of the channel manager\<close>

text \<open>
  The development embeds \<^verbatim>\<open>op-batcher/batcher/channel_manager.go\<close>. Hashes are
  32-byte values, block numbers are \<^verbatim>\<open>uint64\<close>, the block cursor is a Go \<^verbatim>\<open>int\<close>
  (modelled as \<open>int\<close>, with the conversions \<^verbatim>\<open>uint64(...)\<close> and \<^verbatim>\<open>int(...)\<close>
  written out as \<open>word_of_int\<close> and \<open>sint\<close>). Logging and metrics calls have no
  effect on the manager and are left out.
\<close>

type_synonym hash = "256 word"
type_synonym uint64 = "64 word"

text \<open>Modelled from the spec: the types \<^verbatim>\<open>eth.BlockID\<close>, \<^verbatim>\<open>eth.L2BlockRef\<close>,
  \<^verbatim>\<open>types.Block\<close>, \<^verbatim>\<open>eth.SyncStatus\<close>, \<^verbatim>\<open>ChannelConfig\<close> and \<^verbatim>\<open>txData\<close> are
  declared outside \<^verbatim>\<open>channel_manager.go\<close>; their fields are those of section 3 of the
  specification. A \<open>BlockID\<close> is a (hash, number) pair.\<close>

record BlockID =
  bid_Hash :: hash
  bid_Number :: uint64

text \<open>Modelled from the spec: an \<open>L2BlockRef\<close> is
  \<open>(hash, number, parentHash, time, l1Origin, sequenceNumber)\<close>.\<close>

record L2BlockRef =
  ref_Hash :: hash
  ref_Number :: uint64
  ref_ParentHash :: hash
  ref_Time :: uint64
  ref_L1Origin :: BlockID
  ref_SequenceNumber :: uint64

text \<open>Modelled from the spec: an L2 block carries hash, parent hash, block number,
  timestamp and a derivable L1 block info. The fields stand for the accessors \<^verbatim>\<open>Hash()\<close>, \<^verbatim>\<open>ParentHash()\<close>,
  \<^verbatim>\<open>NumberU64()\<close>, \<^verbatim>\<open>Time()\<close> of \<^verbatim>\<open>types.Block\<close> and for the L1 origin and
  sequence number of its L1 block info.\<close>

record Block =
  blk_Hash :: hash
  blk_ParentHash :: hash
  blk_Number :: uint64
  blk_Time :: uint64
  blk_L1Origin :: BlockID
  blk_SequenceNumber :: uint64

text \<open>Modelled from the spec: a sync status contains at least the current L1 block
  and the safe L2 block.\<close>

record SyncStatus =
  CurrentL1 :: BlockID
  SafeL2 :: L2BlockRef

text \<open>Modelled from the spec: the channel configuration; the manager reads only
  \<open>UseBlobs\<close>.\<close>

record ChannelConfig =
  UseBlobs :: bool
  TargetNumFrames :: nat
  MaxFrameSize :: nat
  MaxChannelDuration :: uint64
  SubSafetyMargin :: uint64

text \<open>Modelled from the spec: a transaction request is the serialised transaction id (\<^verbatim>\<open>tx.ID().String()\<close>)
  and the frame payloads it carries.\<close>

record txData =
  txd_ID :: string
  txd_frames :: "uint64 list"

definition emptyTxData :: txData where
  "emptyTxData = \<lparr>txd_ID = [], txd_frames = []\<rparr>"

text \<open>The errors the manager returns: the sentinel \<^verbatim>\<open>io.EOF\<close>, \<^verbatim>\<open>ErrReorg\<close>, an error
  of the codec, an error wrapped with a message (\<^verbatim>\<open>fmt.Errorf\<close>), the error of
  \<^verbatim>\<open>processBlocks\<close> (its message \<^verbatim>\<open>adding block[i] to channel builder\<close> holds the
  queue index \<open>i\<close>), and the error of \<^verbatim>\<open>CheckExpectedProgress\<close>.\<close>

datatype error =
    EOF
  | ErrReorg
  | CodecError nat
  | Wrapped string error
  | AddingBlock int error
  | ErrNoProgress

text \<open>A Go call either panics or returns.\<close>

datatype 'a result = Panic | Ok 'a

text \<open>The error result of \<^verbatim>\<open>AddBlock\<close>: none, a \<^verbatim>\<open>ChannelFullError\<close>, or another
  error.\<close>

datatype add_result = Added | ChannelFullError | AddFailed error

subsection \<open>The channel, as the manager sees it\<close>

text \<open>
  The type \<^verbatim>\<open>channel\<close> and its methods are declared in other files of the package.
  The manager is therefore parametrised by the methods it calls: \<open>'c\<close> is the value
  of a channel object, \<open>'o\<close> a \<^verbatim>\<open>derive.ChannelOut\<close>. A method that mutates its
  receiver returns the new value of the object.
\<close>

record ('c, 'o) channel_ops =
  HasTxData :: "'c \<Rightarrow> bool"
  NextTxData :: "'c \<Rightarrow> txData \<times> 'c"
  LatestL1Origin :: "'c \<Rightarrow> BlockID"
  LatestL2 :: "'c \<Rightarrow> L2BlockRef"
  channel_TxFailed :: "'c \<Rightarrow> string \<Rightarrow> 'c"
  channel_TxConfirmed :: "'c \<Rightarrow> string \<Rightarrow> BlockID \<Rightarrow> bool \<times> 'c"
  NoneSubmitted :: "'c \<Rightarrow> bool"
  IsFull :: "'c \<Rightarrow> bool"
  AddBlock :: "'c \<Rightarrow> Block \<Rightarrow> add_result \<times> 'c"
  CheckTimeout :: "'c \<Rightarrow> uint64 \<Rightarrow> 'c"
  OutputFrames :: "'c \<Rightarrow> error option \<times> 'c"
  isFullySubmitted :: "'c \<Rightarrow> bool"
  isTimedOut :: "'c \<Rightarrow> bool"
  maxInclusionBlock :: "'c \<Rightarrow> uint64"
  builder_blocks :: "'c \<Rightarrow> Block list"
  newChannel :: "ChannelConfig \<Rightarrow> uint64 \<Rightarrow> 'o \<Rightarrow> 'c"

subsection \<open>The manager\<close>

text \<open>
  Channels are heap objects shared between \<open>currentChannel\<close>, \<open>channelQueue\<close> and
  \<open>txChannels\<close>: the three hold references (\<open>nat\<close>) into \<open>store\<close>, and \<open>nextRef\<close>
  is the next unallocated reference. The configuration provider is an external object
  whose answer may change from call to call: \<open>cfgProvider k\<close> is its answer to the
  \<open>k\<close>-th query and \<open>cfgQueries\<close> counts the queries made so far. The factory draws
  a fresh channel id; its first argument is the number of channels allocated so far.
\<close>

record ('c, 'o) channelManager =
  cfgProvider :: "nat \<Rightarrow> ChannelConfig"
  cfgQueries :: nat
  outFactory :: "nat \<Rightarrow> ChannelConfig \<Rightarrow> error + 'o"
  blocks :: "Block list"
  blockCursor :: int
  l1OriginLastSubmittedChannel :: BlockID
  defaultCfg :: ChannelConfig
  tip :: hash
  currentChannel :: "nat option"
  channelQueue :: "nat list"
  txChannels :: "string \<rightharpoonup> nat"
  store :: "nat \<Rightarrow> 'c"
  nextRef :: nat

text \<open>Modelled from the spec: the block queue (\<^verbatim>\<open>queue.Queue\<close>, declared in
  \<^verbatim>\<open>op-service/queue\<close>) is a FIFO with random-access peek by position and bulk
  dequeue from the head. It is a Go slice: a negative position is a run-time panic.\<close>

definition Enqueue :: "'a list \<Rightarrow> 'a \<Rightarrow> 'a list" where
  "Enqueue q x = q @ [x]"

text \<open>Modelled from the spec: \<^verbatim>\<open>Peek\<close> is the head of the queue, if there is one.\<close>

definition Peek :: "'a list \<Rightarrow> 'a option" where
  "Peek q = (case q of [] \<Rightarrow> None | x # _ \<Rightarrow> Some x)"

text \<open>Modelled from the spec: \<^verbatim>\<open>DequeueN\<close> removes \<open>N\<close> elements from the head; it
  fails, and leaves the queue as it is, when the queue is shorter than \<open>N\<close>.\<close>

definition DequeueN :: "'a list \<Rightarrow> int \<Rightarrow> 'a list result" where
  "DequeueN q N =
     (if int (length q) < N then Ok q
      else if N < 0 then Panic
      else Ok (drop (nat N) q))"

text \<open>Modelled from the spec: a \<open>BlockID\<close> is the (hash, number) pair of a block
  (\<^verbatim>\<open>eth.ToBlockID\<close>, declared in \<^verbatim>\<open>op-service/eth\<close>).\<close>

definition ToBlockID :: "Block \<Rightarrow> BlockID" where
  "ToBlockID b = \<lparr>bid_Hash = blk_Hash b, bid_Number = blk_Number b\<rparr>"

definition NewChannelManager ::
  "(nat \<Rightarrow> ChannelConfig) \<Rightarrow> (nat \<Rightarrow> ChannelConfig \<Rightarrow> error + 'o) \<Rightarrow> (nat \<Rightarrow> 'c)
     \<Rightarrow> ('c, 'o) channelManager" where
  "NewChannelManager prov fac mem =
     \<lparr>cfgProvider = prov, cfgQueries = 1, outFactory = fac,
      blocks = [], blockCursor = 0,
      l1OriginLastSubmittedChannel = \<lparr>bid_Hash = 0, bid_Number = 0\<rparr>,
      defaultCfg = prov 0, tip = 0,
      currentChannel = None, channelQueue = [], txChannels = Map.empty,
      store = mem, nextRef = 0\<rparr>"

definition Clear :: "('c, 'o) channelManager \<Rightarrow> BlockID \<Rightarrow> ('c, 'o) channelManager" where
  "Clear s l1Origin =
     s\<lparr>blocks := [], blockCursor := 0,
       l1OriginLastSubmittedChannel := l1Origin,
       tip := 0, currentChannel := None, channelQueue := [],
       txChannels := Map.empty\<rparr>"

definition pendingBlocks :: "('c, 'o) channelManager \<Rightarrow> int" where
  "pendingBlocks s = int (length (blocks s)) - blockCursor s"

definition TxFailed ::
  "('c, 'o) channel_ops \<Rightarrow> ('c, 'o) channelManager \<Rightarrow> string \<Rightarrow> ('c, 'o) channelManager" where
  "TxFailed ops s txid =
     (case txChannels s txid of
        Some channel \<Rightarrow>
          s\<lparr>txChannels := (txChannels s)(txid := None),
            store := (store s)(channel := channel_TxFailed ops (store s channel) txid)\<rparr>
      | None \<Rightarrow> s)"

text \<open>Indexing a slice out of range is a run-time panic, as is the explicit
  \<^verbatim>\<open>panic\<close> of the else branch.\<close>

definition rewindToBlock ::
  "('c, 'o) channelManager \<Rightarrow> BlockID \<Rightarrow> ('c, 'o) channelManager result" where
  "rewindToBlock s block =
     (case blocks s of
        [] \<Rightarrow> Panic
      | b0 # _ \<Rightarrow>
          let idx = bid_Number block - blk_Number b0 in
          if \<not> unat idx < length (blocks s) then Panic
          else if blk_Hash (blocks s ! unat idx) = bid_Hash block
                  \<and> idx < word_of_int (blockCursor s)
          then Ok (s\<lparr>blockCursor := sint idx\<rparr>)
          else Panic)"

text \<open>The trimming loop of \<^verbatim>\<open>handleChannelInvalidated\<close>: the queue is cut at the
  first position that holds \<open>c\<close>.\<close>

fun trimQueue :: "nat \<Rightarrow> nat list \<Rightarrow> nat list" where
  "trimQueue c [] = []"
| "trimQueue c (x # xs) = (if x = c then [] else x # trimQueue c xs)"

definition handleChannelInvalidated ::
  "('c, 'o) channel_ops \<Rightarrow> ('c, 'o) channelManager \<Rightarrow> nat \<Rightarrow> ('c, 'o) channelManager result" where
  "handleChannelInvalidated ops s c =
     (case (if builder_blocks ops (store s c) \<noteq> []
            then rewindToBlock s (ToBlockID (hd (builder_blocks ops (store s c))))
            else Ok s) of
        Panic \<Rightarrow> Panic
      | Ok s1 \<Rightarrow>
          Ok (s1\<lparr>channelQueue := trimQueue c (channelQueue s1), currentChannel := None\<rparr>))"

definition TxConfirmed ::
  "('c, 'o) channel_ops \<Rightarrow> ('c, 'o) channelManager \<Rightarrow> string \<Rightarrow> BlockID
     \<Rightarrow> ('c, 'o) channelManager result" where
  "TxConfirmed ops s txid inclusionBlock =
     (case txChannels s txid of
        Some channel \<Rightarrow>
          (case channel_TxConfirmed ops (store s channel) txid inclusionBlock of
             (timedOut, c') \<Rightarrow>
               let s1 = s\<lparr>txChannels := (txChannels s)(txid := None),
                          store := (store s)(channel := c')\<rparr>
               in if timedOut then handleChannelInvalidated ops s1 channel else Ok s1)
      | None \<Rightarrow> Ok s)"

definition nextTxData ::
  "('c, 'o) channel_ops \<Rightarrow> ('c, 'o) channelManager \<Rightarrow> nat option
     \<Rightarrow> (error + txData) \<times> ('c, 'o) channelManager" where
  "nextTxData ops s channel =
     (case channel of
        None \<Rightarrow> (Inl EOF, s)
      | Some ch \<Rightarrow>
          if \<not> HasTxData ops (store s ch) then (Inl EOF, s)
          else
            (case NextTxData ops (store s ch) of
               (tx, c') \<Rightarrow>
                 let s1 = s\<lparr>store := (store s)(ch := c')\<rparr>;
                     s2 = (if bid_Number (LatestL1Origin ops c')
                              > bid_Number (l1OriginLastSubmittedChannel s1)
                           then s1\<lparr>l1OriginLastSubmittedChannel := LatestL1Origin ops c'\<rparr>
                           else s1)
                 in (Inr tx, s2\<lparr>txChannels := (txChannels s2)(txd_ID tx \<mapsto> ch)\<rparr>)))"

text \<open>The scan of \<^verbatim>\<open>getReadyChannel\<close> for the first channel with transaction
  data.\<close>

fun firstWithTxData :: "('c, 'o) channel_ops \<Rightarrow> (nat \<Rightarrow> 'c) \<Rightarrow> nat list \<Rightarrow> nat option" where
  "firstWithTxData ops st [] = None"
| "firstWithTxData ops st (ch # rest) =
     (if HasTxData ops (st ch) then Some ch else firstWithTxData ops st rest)"

definition ensureChannelWithSpace ::
  "('c, 'o) channel_ops \<Rightarrow> ('c, 'o) channelManager \<Rightarrow> BlockID
     \<Rightarrow> error option \<times> ('c, 'o) channelManager" where
  "ensureChannelWithSpace ops s l1Head =
     (if (case currentChannel s of None \<Rightarrow> False | Some cur \<Rightarrow> \<not> IsFull ops (store s cur))
      then (None, s)
      else
        let cfg = defaultCfg s in
        (case outFactory s (nextRef s) cfg of
           Inl err \<Rightarrow> (Some (Wrapped ''creating channel out'' err), s)
         | Inr channelOut \<Rightarrow>
             let pc = nextRef s in
             (None,
              s\<lparr>store := (store s)(pc := newChannel ops cfg
                     (bid_Number (l1OriginLastSubmittedChannel s)) channelOut),
                nextRef := Suc pc,
                currentChannel := Some pc,
                channelQueue := channelQueue s @ [pc]\<rparr>)))"

text \<open>In the next three functions a nil current channel is a nil dereference.\<close>

definition registerL1Block ::
  "('c, 'o) channel_ops \<Rightarrow> ('c, 'o) channelManager \<Rightarrow> BlockID \<Rightarrow> ('c, 'o) channelManager result" where
  "registerL1Block ops s l1Head =
     (case currentChannel s of
        None \<Rightarrow> Panic
      | Some cur \<Rightarrow>
          Ok (s\<lparr>store := (store s)(cur := CheckTimeout ops (store s cur) (bid_Number l1Head))\<rparr>))"

text \<open>The body of the loop of \<^verbatim>\<open>processBlocks\<close>, over the blocks from the cursor on:
  the channel after the loop, and either the error that ended it, with the number of
  blocks added before it, or the number of blocks added.\<close>

fun addBlocks ::
  "('c, 'o) channel_ops \<Rightarrow> 'c \<Rightarrow> Block list \<Rightarrow> nat \<Rightarrow> 'c \<times> (nat \<times> error + nat)" where
  "addBlocks ops ch [] blocksAdded = (ch, Inr blocksAdded)"
| "addBlocks ops ch (block # rest) blocksAdded =
     (case AddBlock ops ch block of
        (ChannelFullError, ch') \<Rightarrow> (ch', Inr blocksAdded)
      | (AddFailed err, ch') \<Rightarrow> (ch', Inl (blocksAdded, err))
      | (Added, ch') \<Rightarrow>
          if IsFull ops ch' then (ch', Inr (blocksAdded + 1))
          else addBlocks ops ch' rest (blocksAdded + 1))"

text \<open>\<^verbatim>\<open>PeekN\<close> at a negative cursor is a run-time panic. When \<^verbatim>\<open>AddBlock\<close> fails
  the function returns before the cursor is advanced; the loop index in the error is
  the cursor plus the number of blocks added so far.\<close>

definition processBlocks ::
  "('c, 'o) channel_ops \<Rightarrow> ('c, 'o) channelManager
     \<Rightarrow> (error option \<times> ('c, 'o) channelManager) result" where
  "processBlocks ops s =
     (if blockCursor s < 0 then Panic
      else
        (case currentChannel s of
           None \<Rightarrow> Panic
         | Some cur \<Rightarrow>
             (case addBlocks ops (store s cur) (drop (nat (blockCursor s)) (blocks s)) 0 of
                (ch', Inl (added, err)) \<Rightarrow>
                  Ok (Some (AddingBlock (blockCursor s + int added) err),
                      s\<lparr>store := (store s)(cur := ch')\<rparr>)
              | (ch', Inr blocksAdded) \<Rightarrow>
                  Ok (None,
                      s\<lparr>store := (store s)(cur := ch'),
                        blockCursor := blockCursor s + int blocksAdded\<rparr>))))"

definition outputFrames ::
  "('c, 'o) channel_ops \<Rightarrow> ('c, 'o) channelManager
     \<Rightarrow> (error option \<times> ('c, 'o) channelManager) result" where
  "outputFrames ops s =
     (case currentChannel s of
        None \<Rightarrow> Panic
      | Some cur \<Rightarrow>
          (case OutputFrames ops (store s cur) of
             (Some err, ch') \<Rightarrow>
               Ok (Some (Wrapped ''creating frames with channel builder'' err),
                   s\<lparr>store := (store s)(cur := ch')\<rparr>)
           | (None, ch') \<Rightarrow> Ok (None, s\<lparr>store := (store s)(cur := ch')\<rparr>)))"

definition getReadyChannel ::
  "('c, 'o) channel_ops \<Rightarrow> ('c, 'o) channelManager \<Rightarrow> BlockID
     \<Rightarrow> ((error + nat) \<times> ('c, 'o) channelManager) result" where
  "getReadyChannel ops s l1Head =
     (case firstWithTxData ops (store s) (channelQueue s) of
        Some ch \<Rightarrow> Ok (Inr ch, s)
      | None \<Rightarrow>
          if pendingBlocks s = 0 then Ok (Inl EOF, s)
          else
            (case ensureChannelWithSpace ops s l1Head of
               (Some err, s1) \<Rightarrow> Ok (Inl err, s1)
             | (None, s1) \<Rightarrow>
                 (case processBlocks ops s1 of
                    Panic \<Rightarrow> Panic
                  | Ok (Some err, s2) \<Rightarrow> Ok (Inl err, s2)
                  | Ok (None, s2) \<Rightarrow>
                      (case registerL1Block ops s2 l1Head of
                         Panic \<Rightarrow> Panic
                       | Ok s3 \<Rightarrow>
                           (case outputFrames ops s3 of
                              Panic \<Rightarrow> Panic
                            | Ok (Some err, s4) \<Rightarrow> Ok (Inl err, s4)
                            | Ok (None, s4) \<Rightarrow>
                                (case currentChannel s4 of
                                   None \<Rightarrow> Panic
                                 | Some cur \<Rightarrow>
                                     if HasTxData ops (store s4 cur) then Ok (Inr cur, s4)
                                     else Ok (Inl EOF, s4)))))))"

text \<open>One query of the configuration provider.\<close>

definition queryCfg :: "('c, 'o) channelManager \<Rightarrow> ChannelConfig \<times> ('c, 'o) channelManager" where
  "queryCfg s = (cfgProvider s (cfgQueries s), s\<lparr>cfgQueries := Suc (cfgQueries s)\<rparr>)"

definition TxData ::
  "('c, 'o) channel_ops \<Rightarrow> ('c, 'o) channelManager \<Rightarrow> BlockID
     \<Rightarrow> ((error + txData) \<times> ('c, 'o) channelManager) result" where
  "TxData ops s l1Head =
     (case getReadyChannel ops s l1Head of
        Panic \<Rightarrow> Panic
      | Ok (Inl err, s1) \<Rightarrow> Ok (Inl err, s1)
      | Ok (Inr channel, s1) \<Rightarrow>
          if \<not> NoneSubmitted ops (store s1 channel) then Ok (nextTxData ops s1 (Some channel))
          else
            (case queryCfg s1 of
               (newCfg, s2) \<Rightarrow>
                 if UseBlobs newCfg = UseBlobs (defaultCfg s2)
                 then Ok (nextTxData ops s2 (Some channel))
                 else
                   (case handleChannelInvalidated ops s2 channel of
                      Panic \<Rightarrow> Panic
                    | Ok s3 \<Rightarrow>
                        (case getReadyChannel ops (s3\<lparr>defaultCfg := newCfg\<rparr>) l1Head of
                           Panic \<Rightarrow> Panic
                         | Ok (Inl err, s4) \<Rightarrow> Ok (Inl err, s4)
                         | Ok (Inr channel', s4) \<Rightarrow> Ok (nextTxData ops s4 (Some channel'))))))"

definition AddL2Block ::
  "('c, 'o) channelManager \<Rightarrow> Block \<Rightarrow> error option \<times> ('c, 'o) channelManager" where
  "AddL2Block s block =
     (if tip s \<noteq> 0 \<and> tip s \<noteq> blk_ParentHash block then (Some ErrReorg, s)
      else (None, s\<lparr>blocks := Enqueue (blocks s) block, tip := blk_Hash block\<rparr>))"

definition pruneSafeBlocks ::
  "('c, 'o) channelManager \<Rightarrow> L2BlockRef \<Rightarrow> ('c, 'o) channelManager result" where
  "pruneSafeBlocks s newSafeHead =
     (case Peek (blocks s) of
        None \<Rightarrow> Ok s
      | Some oldestBlock \<Rightarrow>
          if ref_Number newSafeHead + 1 = blk_Number oldestBlock then Ok s
          else if ref_Number newSafeHead + 1 < blk_Number oldestBlock
          then Ok (Clear s (ref_L1Origin newSafeHead))
          else
            let numBlocksToDequeue = ref_Number newSafeHead + 1 - blk_Number oldestBlock in
            if numBlocksToDequeue > word_of_nat (length (blocks s))
            then Ok (Clear s (ref_L1Origin newSafeHead))
            else if \<not> unat (numBlocksToDequeue - 1) < length (blocks s) then Panic
            else if blk_Hash (blocks s ! unat (numBlocksToDequeue - 1)) \<noteq> ref_Hash newSafeHead
            then Ok (Clear s (ref_L1Origin newSafeHead))
            else
              (case DequeueN (blocks s) (sint numBlocksToDequeue) of
                 Panic \<Rightarrow> Panic
               | Ok q \<Rightarrow>
                   let s1 = s\<lparr>blocks := q,
                              blockCursor := blockCursor s - sint numBlocksToDequeue\<rparr>
                   in if blockCursor s1 < 0 then Panic else Ok s1))"

text \<open>The counting loop of \<^verbatim>\<open>pruneChannels\<close>: the index of the first channel whose
  latest L2 block is above the safe head.\<close>

fun pruneCount :: "('c, 'o) channel_ops \<Rightarrow> (nat \<Rightarrow> 'c) \<Rightarrow> uint64 \<Rightarrow> nat list \<Rightarrow> nat" where
  "pruneCount ops st n [] = 0"
| "pruneCount ops st n (ch # rest) =
     (if ref_Number (LatestL2 ops (st ch)) > n then 0
      else Suc (pruneCount ops st n rest))"

definition pruneChannels ::
  "('c, 'o) channel_ops \<Rightarrow> ('c, 'o) channelManager \<Rightarrow> L2BlockRef \<Rightarrow> ('c, 'o) channelManager" where
  "pruneChannels ops s newSafeHead =
     s\<lparr>channelQueue :=
         drop (pruneCount ops (store s) (ref_Number newSafeHead) (channelQueue s))
              (channelQueue s)\<rparr>"

text \<open>The loop of \<^verbatim>\<open>CheckExpectedProgress\<close>.\<close>

fun progressLoop ::
  "('c, 'o) channel_ops \<Rightarrow> (nat \<Rightarrow> 'c) \<Rightarrow> SyncStatus \<Rightarrow> nat list \<Rightarrow> error option" where
  "progressLoop ops st syncStatus [] = None"
| "progressLoop ops st syncStatus (ch # rest) =
     (if isFullySubmitted ops (st ch)
         \<and> \<not> isTimedOut ops (st ch)
         \<and> bid_Number (CurrentL1 syncStatus) > maxInclusionBlock ops (st ch)
         \<and> ref_Number (SafeL2 syncStatus) < ref_Number (LatestL2 ops (st ch))
      then Some ErrNoProgress
      else progressLoop ops st syncStatus rest)"

definition CheckExpectedProgress ::
  "('c, 'o) channel_ops \<Rightarrow> ('c, 'o) channelManager \<Rightarrow> SyncStatus
     \<Rightarrow> error option \<times> ('c, 'o) channelManager" where
  "CheckExpectedProgress ops m syncStatus =
     (progressLoop ops (store m) syncStatus (channelQueue m), m)"

subsection \<open>Notions used to state the properties\<close>

text \<open>\<^verbatim>\<open>l2BlockRefFromBlockAndL1Info\<close>: the L2 block reference of a block; the L1
  block info is the one derivable from the block.\<close>

definition l2BlockRefFromBlockAndL1Info :: "Block \<Rightarrow> L2BlockRef" where
  "l2BlockRefFromBlockAndL1Info block =
     \<lparr>ref_Hash = blk_Hash block, ref_Number = blk_Number block,
      ref_ParentHash = blk_ParentHash block, ref_Time = blk_Time block,
      ref_L1Origin = blk_L1Origin block,
      ref_SequenceNumber = blk_SequenceNumber block\<rparr>"

text \<open>Feeding a list of blocks through \<open>AddL2Block\<close>, whatever each call returns.\<close>

fun addAll :: "('c, 'o) channelManager \<Rightarrow> Block list \<Rightarrow> ('c, 'o) channelManager" where
  "addAll s [] = s"
| "addAll s (b # bs) = addAll (snd (AddL2Block s b)) bs"

text \<open>The condition under which \<open>CheckExpectedProgress\<close> reports a channel.\<close>

definition noProgress :: "('c, 'o) channel_ops \<Rightarrow> SyncStatus \<Rightarrow> 'c \<Rightarrow> bool" where
  "noProgress ops syncStatus ch \<longleftrightarrow>
     isFullySubmitted ops ch \<and> \<not> isTimedOut ops ch
     \<and> bid_Number (CurrentL1 syncStatus) > maxInclusionBlock ops ch
     \<and> ref_Number (SafeL2 syncStatus) < ref_Number (LatestL2 ops ch)"

text \<open>The transaction index only holds channels of the channel queue.\<close>

definition txChannels_in_queue :: "('c, 'o) channelManager \<Rightarrow> bool" where
  "txChannels_in_queue s \<longleftrightarrow>
     (\<forall>txid ch. txChannels s txid = Some ch \<longrightarrow> ch \<in> set (channelQueue s))"

text \<open>The current channel, when there is one, is in the channel queue.\<close>

definition current_in_queue :: "('c, 'o) channelManager \<Rightarrow> bool" where
  "current_in_queue s \<longleftrightarrow>
     (\<forall>cur. currentChannel s = Some cur \<longrightarrow> cur \<in> set (channelQueue s))"

text \<open>The states reachable from a fresh or cleared manager by the public operations.\<close>

inductive reachable :: "('c, 'o) channel_ops \<Rightarrow> ('c, 'o) channelManager \<Rightarrow> bool"
  for ops :: "('c, 'o) channel_ops" where
  reach_fresh: "reachable ops (NewChannelManager prov fac mem)"
| reach_Clear: "reachable ops (Clear s l1Origin)"
| reach_AddL2Block: "reachable ops s \<Longrightarrow> reachable ops (snd (AddL2Block s block))"
| reach_TxData: "reachable ops s \<Longrightarrow> TxData ops s l1Head = Ok (r, s') \<Longrightarrow> reachable ops s'"
| reach_TxFailed: "reachable ops s \<Longrightarrow> reachable ops (TxFailed ops s txid)"
| reach_TxConfirmed:
    "reachable ops s \<Longrightarrow> TxConfirmed ops s txid inclusionBlock = Ok s' \<Longrightarrow> reachable ops s'"
| reach_pruneSafeBlocks:
    "reachable ops s \<Longrightarrow> pruneSafeBlocks s newSafeHead = Ok s' \<Longrightarrow> reachable ops s'"
| reach_pruneChannels: "reachable ops s \<Longrightarrow> reachable ops (pruneChannels ops s newSafeHead)"

text \<open>A call of \<open>TxData\<close> switches the DA type when the ready channel has nothing
  submitted and the provider's answer differs in \<open>UseBlobs\<close>; a call of \<open>TxConfirmed\<close>
  times out when the channel of the transaction reports so. These are the two calls
  of \<open>handleChannelInvalidated\<close>.\<close>

definition switchesDA :: "('c, 'o) channel_ops \<Rightarrow> ('c, 'o) channelManager \<Rightarrow> BlockID \<Rightarrow> bool" where
  "switchesDA ops s l1Head =
     (case getReadyChannel ops s l1Head of
        Ok (Inr ch, s1) \<Rightarrow>
          NoneSubmitted ops (store s1 ch)
          \<and> UseBlobs (cfgProvider s1 (cfgQueries s1)) \<noteq> UseBlobs (defaultCfg s1)
      | _ \<Rightarrow> False)"

definition confirmTimesOut ::
  "('c, 'o) channel_ops \<Rightarrow> ('c, 'o) channelManager \<Rightarrow> string \<Rightarrow> BlockID \<Rightarrow> bool" where
  "confirmTimesOut ops s txid inclusionBlock =
     (case txChannels s txid of
        Some ch \<Rightarrow> fst (channel_TxConfirmed ops (store s ch) txid inclusionBlock)
      | None \<Rightarrow> False)"

text \<open>\<open>getReadyChannel\<close> has to create a channel when no queued channel has
  transaction data and the current channel is nil or full.\<close>

definition createsChannel :: "('c, 'o) channel_ops \<Rightarrow> ('c, 'o) channelManager \<Rightarrow> bool" where
  "createsChannel ops s \<longleftrightarrow>
     firstWithTxData ops (store s) (channelQueue s) = None
     \<and> (case currentChannel s of None \<Rightarrow> True | Some cur \<Rightarrow> IsFull ops (store s cur))"

text \<open>The states reachable without dropping a channel: no \<open>pruneChannels\<close> and no call
  that reaches \<open>handleChannelInvalidated\<close>.\<close>

inductive reachable_keeping :: "('c, 'o) channel_ops \<Rightarrow> ('c, 'o) channelManager \<Rightarrow> bool"
  for ops :: "('c, 'o) channel_ops" where
  keep_fresh: "reachable_keeping ops (NewChannelManager prov fac mem)"
| keep_Clear: "reachable_keeping ops (Clear s l1Origin)"
| keep_AddL2Block:
    "reachable_keeping ops s \<Longrightarrow> reachable_keeping ops (snd (AddL2Block s block))"
| keep_TxData:
    "reachable_keeping ops s \<Longrightarrow> TxData ops s l1Head = Ok (r, s')
       \<Longrightarrow> \<not> switchesDA ops s l1Head \<Longrightarrow> reachable_keeping ops s'"
| keep_TxFailed: "reachable_keeping ops s \<Longrightarrow> reachable_keeping ops (TxFailed ops s txid)"
| keep_TxConfirmed:
    "reachable_keeping ops s \<Longrightarrow> TxConfirmed ops s txid inclusionBlock = Ok s'
       \<Longrightarrow> \<not> confirmTimesOut ops s txid inclusionBlock \<Longrightarrow> reachable_keeping ops s'"
| keep_pruneSafeBlocks:
    "reachable_keeping ops s \<Longrightarrow> pruneSafeBlocks s newSafeHead = Ok s'
       \<Longrightarrow> reachable_keeping ops s'"

subsection \<open>An example channel\<close>

text \<open>
  The theorems below hold for every implementation of the channel methods. Their closed
  instances run the manager on the example channel of this section.
\<close>

text \<open>Modelled from the spec: the state of a channel and of its builder (sections 4.2
  and 4.3): the accepted blocks, the blocks not yet turned into frames, the L1 block at
  which construction began, the full flag, the latest L1 origin and L2 reference, the
  pending frames, the in-flight transactions, the counters, the inclusion deadline and
  the time-out flag.\<close>

record channel =
  ch_id :: nat
  ch_cfg :: ChannelConfig
  ch_blocks :: "Block list"
  ch_unframed :: "Block list"
  ch_openL1Block :: uint64
  ch_full :: bool
  ch_latestL1Origin :: BlockID
  ch_latestL2 :: L2BlockRef
  ch_pendingFrames :: "uint64 list"
  ch_inflight :: "(string \<times> uint64) list"
  ch_confirmedCount :: nat
  ch_totalFrames :: nat
  ch_maxInclusionBlock :: uint64
  ch_timedOut :: bool
  ch_dispatched :: nat

text \<open>Transaction ids are strings: the channel id and the number of frames the channel
  has dispatched so far, both in unary, so that an id is never reused.\<close>

primrec tally :: "nat \<Rightarrow> string" where
  "tally 0 = []"
| "tally (Suc n) = CHR ''i'' # tally n"

text \<open>Modelled from the spec: a transaction id is opaque, string-serialisable, one per
  frame per submission attempt and never reused.\<close>

definition ex_txID :: "channel \<Rightarrow> string" where
  "ex_txID c = ''c'' @ tally (ch_id c) @ ''t'' @ tally (ch_dispatched c)"

text \<open>Modelled from the spec: \<^verbatim>\<open>NextTxData\<close> pops one frame, assigns a fresh id and
  records it in flight.\<close>

definition ex_NextTxData :: "channel \<Rightarrow> txData \<times> channel" where
  "ex_NextTxData c =
     (case ch_pendingFrames c of
        [] \<Rightarrow> (emptyTxData, c)
      | f # fs \<Rightarrow>
          (\<lparr>txd_ID = ex_txID c, txd_frames = [f]\<rparr>,
           c\<lparr>ch_pendingFrames := fs,
             ch_inflight := (ex_txID c, f) # ch_inflight c,
             ch_dispatched := Suc (ch_dispatched c)\<rparr>))"

text \<open>Modelled from the spec: \<^verbatim>\<open>TxFailed\<close> moves the frame back to the head of the
  pending frames and removes the id; an unknown id is ignored.\<close>

definition ex_TxFailed :: "channel \<Rightarrow> string \<Rightarrow> channel" where
  "ex_TxFailed c txid =
     (case map_of (ch_inflight c) txid of
        None \<Rightarrow> c
      | Some f \<Rightarrow>
          c\<lparr>ch_pendingFrames := f # ch_pendingFrames c,
            ch_inflight := filter (\<lambda>p. fst p \<noteq> txid) (ch_inflight c)\<rparr>)"

text \<open>Modelled from the spec: \<^verbatim>\<open>TxConfirmed\<close> removes the frame from the in-flight
  transactions and counts it; an inclusion block above the deadline latches the
  time-out flag and is reported. An unknown id is ignored.\<close>

definition ex_TxConfirmed :: "channel \<Rightarrow> string \<Rightarrow> BlockID \<Rightarrow> bool \<times> channel" where
  "ex_TxConfirmed c txid inclusionBlock =
     (case map_of (ch_inflight c) txid of
        None \<Rightarrow> (False, c)
      | Some f \<Rightarrow>
          let c1 = c\<lparr>ch_inflight := filter (\<lambda>p. fst p \<noteq> txid) (ch_inflight c),
                     ch_confirmedCount := Suc (ch_confirmedCount c)\<rparr>
          in if bid_Number inclusionBlock > ch_maxInclusionBlock c1
             then (True, c1\<lparr>ch_timedOut := True\<rparr>)
             else (False, c1))"

text \<open>Modelled from the spec: \<^verbatim>\<open>AddBlock\<close> delegates to the codec; on success it
  updates the L1 origin and the latest L2 reference, on a full channel it leaves the
  state untouched. The example codec accepts every block while the builder is open.\<close>

definition ex_AddBlock :: "channel \<Rightarrow> Block \<Rightarrow> add_result \<times> channel" where
  "ex_AddBlock c block =
     (if ch_full c then (ChannelFullError, c)
      else
        (Added,
         c\<lparr>ch_blocks := ch_blocks c @ [block],
           ch_unframed := ch_unframed c @ [block],
           ch_latestL1Origin :=
             (if bid_Number (blk_L1Origin block) > bid_Number (ch_latestL1Origin c)
              then blk_L1Origin block else ch_latestL1Origin c),
           ch_latestL2 := l2BlockRefFromBlockAndL1Info block\<rparr>))"

text \<open>Modelled from the spec: \<^verbatim>\<open>CheckTimeout\<close> marks the builder full once the
  channel duration has passed.\<close>

definition ex_CheckTimeout :: "channel \<Rightarrow> uint64 \<Rightarrow> channel" where
  "ex_CheckTimeout c currentL1 =
     (if currentL1 - ch_openL1Block c \<ge> MaxChannelDuration (ch_cfg c)
      then c\<lparr>ch_full := True\<rparr> else c)"

text \<open>Modelled from the spec: \<^verbatim>\<open>OutputFrames\<close> materialises the frames. The example
  codec emits one frame per accepted block (its payload is the block number) and signals
  full when the frame budget is reached.\<close>

definition ex_OutputFrames :: "channel \<Rightarrow> error option \<times> channel" where
  "ex_OutputFrames c =
     (None,
      c\<lparr>ch_pendingFrames := ch_pendingFrames c @ map blk_Number (ch_unframed c),
        ch_totalFrames := ch_totalFrames c + length (ch_unframed c),
        ch_unframed := [],
        ch_full := (ch_full c
           \<or> TargetNumFrames (ch_cfg c) \<le> ch_totalFrames c + length (ch_unframed c))\<rparr>)"

text \<open>Modelled from the spec: a new channel is open and empty; its inclusion deadline is
  \<open>openL1Block + maxChannelDuration - subSafetyMargin\<close>.\<close>

definition ex_newChannel :: "ChannelConfig \<Rightarrow> uint64 \<Rightarrow> nat \<Rightarrow> channel" where
  "ex_newChannel cfg openL1 chid =
     \<lparr>ch_id = chid, ch_cfg = cfg, ch_blocks = [], ch_unframed = [],
      ch_openL1Block = openL1, ch_full = False,
      ch_latestL1Origin = \<lparr>bid_Hash = 0, bid_Number = 0\<rparr>,
      ch_latestL2 = \<lparr>ref_Hash = 0, ref_Number = 0, ref_ParentHash = 0, ref_Time = 0,
         ref_L1Origin = \<lparr>bid_Hash = 0, bid_Number = 0\<rparr>, ref_SequenceNumber = 0\<rparr>,
      ch_pendingFrames = [], ch_inflight = [], ch_confirmedCount = 0,
      ch_totalFrames = 0,
      ch_maxInclusionBlock = openL1 + MaxChannelDuration cfg - SubSafetyMargin cfg,
      ch_timedOut = False, ch_dispatched = 0\<rparr>"

text \<open>Modelled from the spec: the accessors of section 4.3 (\<^verbatim>\<open>HasTxData\<close>,
  \<^verbatim>\<open>NoneSubmitted\<close>, \<^verbatim>\<open>isFullySubmitted\<close>, \<^verbatim>\<open>isTimedOut\<close>) and the methods above.\<close>

definition ex_ops :: "(channel, nat) channel_ops" where
  "ex_ops =
     \<lparr>HasTxData = (\<lambda>c. ch_pendingFrames c \<noteq> []),
      NextTxData = ex_NextTxData,
      LatestL1Origin = ch_latestL1Origin,
      LatestL2 = ch_latestL2,
      channel_TxFailed = ex_TxFailed,
      channel_TxConfirmed = ex_TxConfirmed,
      NoneSubmitted = (\<lambda>c. ch_confirmedCount c = 0 \<and> ch_inflight c = [] \<and> ch_dispatched c = 0),
      IsFull = ch_full,
      AddBlock = ex_AddBlock,
      CheckTimeout = ex_CheckTimeout,
      OutputFrames = ex_OutputFrames,
      isFullySubmitted = (\<lambda>c. ch_confirmedCount c = ch_totalFrames c \<and> ch_full c),
      isTimedOut = ch_timedOut,
      maxInclusionBlock = ch_maxInclusionBlock,
      builder_blocks = ch_blocks,
      newChannel = ex_newChannel\<rparr>"

text \<open>Example inputs: a configuration, a factory that always succeeds, the block with
  number \<open>n\<close> (whose parent is the block with number \<open>n - 1\<close>), and a fresh manager.\<close>

definition ex_cfg :: ChannelConfig where
  "ex_cfg = \<lparr>UseBlobs = False, TargetNumFrames = 2, MaxFrameSize = 100,
             MaxChannelDuration = 10, SubSafetyMargin = 4\<rparr>"

definition ex_factory :: "nat \<Rightarrow> ChannelConfig \<Rightarrow> error + nat" where
  "ex_factory n cfg = Inr n"

definition ex_block :: "nat \<Rightarrow> Block" where
  "ex_block n =
     \<lparr>blk_Hash = of_nat n + 1000, blk_ParentHash = of_nat n + 999, blk_Number = of_nat n,
      blk_Time = 0, blk_L1Origin = \<lparr>bid_Hash = 7, bid_Number = 50\<rparr>,
      blk_SequenceNumber = 0\<rparr>"

definition ex_manager :: "(channel, nat) channelManager" where
  "ex_manager = NewChannelManager (\<lambda>_. ex_cfg) ex_factory (\<lambda>_. ex_newChannel ex_cfg 0 0)"

definition ex_l1Head :: BlockID where
  "ex_l1Head = \<lparr>bid_Hash = 1, bid_Number = 3\<rparr>"

text \<open>Blocks 10 and 11 have been added and nothing else has happened.\<close>

definition ex_after_add :: "(channel, nat) channelManager" where
  "ex_after_add = addAll ex_manager [ex_block 10, ex_block 11]"

text \<open>A channel queue whose second channel is still empty: the first holds block 20.\<close>

definition ex_two_channels :: "(channel, nat) channelManager" where
  "ex_two_channels =
     ex_manager
       \<lparr>channelQueue := [0, Suc 0], currentChannel := Some (Suc 0), nextRef := Suc (Suc 0),
        store := (\<lambda>_. ex_newChannel ex_cfg 0 (Suc 0))
          (0 := (snd (ex_AddBlock (ex_newChannel ex_cfg 0 0) (ex_block 20)))\<lparr>ch_full := True\<rparr>)\<rparr>"

definition ex_safe :: "nat \<Rightarrow> L2BlockRef" where
  "ex_safe n = l2BlockRefFromBlockAndL1Info (ex_block n)"

text \<open>The second channel of the queue has a frame to send; a sync status whose
  current L1 block is 7 and whose safe L2 block is 15.\<close>

definition ex_two_ready :: "(channel, nat) channelManager" where
  "ex_two_ready =
     ex_two_channels
       \<lparr>store := (store ex_two_channels)
          (Suc 0 := snd (ex_OutputFrames
             (snd (ex_AddBlock (ex_newChannel ex_cfg 0 (Suc 0)) (ex_block 21)))))\<rparr>"

definition ex_sync :: SyncStatus where
  "ex_sync = \<lparr>CurrentL1 = \<lparr>bid_Hash = 2, bid_Number = 7\<rparr>, SafeL2 = ex_safe 15\<rparr>"

text \<open>The manager after one call of \<open>TxData\<close> on the two added blocks.\<close>

definition ex_used :: "(channel, nat) channelManager" where
  "ex_used =
     (case TxData ex_ops ex_after_add ex_l1Head of Ok (r, s) \<Rightarrow> s | Panic \<Rightarrow> ex_after_add)"

text \<open>After a second call of \<open>TxData\<close> both frames of the channel are in flight. An
  inclusion block above the deadline of the channel (which is 6) times the channel out:
  the state after the first of the two transactions is confirmed there.\<close>

definition ex_used2 :: "(channel, nat) channelManager" where
  "ex_used2 =
     (case TxData ex_ops ex_used ex_l1Head of Ok (r, s) \<Rightarrow> s | Panic \<Rightarrow> ex_used)"

definition ex_late :: BlockID where
  "ex_late = \<lparr>bid_Hash = 3, bid_Number = 7\<rparr>"

definition ex_timed_out :: "(channel, nat) channelManager" where
  "ex_timed_out =
     (case TxConfirmed ex_ops ex_used2 ''ct'' ex_late of Ok s \<Rightarrow> s | Panic \<Rightarrow> ex_used2)"

text \<open>The manager after one call of \<open>TxData\<close> and a safe head at block 11.\<close>

definition ex_pruned :: "(channel, nat) channelManager" where
  "ex_pruned = pruneChannels ex_ops ex_used (ex_safe 11)"

text \<open>The manager after \<open>getReadyChannel\<close> on the two added blocks; and the same run
  with a provider that answers with blobs from its second query on.\<close>

definition ex_ready :: "(channel, nat) channelManager" where
  "ex_ready =
     (case getReadyChannel ex_ops ex_after_add ex_l1Head of
        Ok (r, s) \<Rightarrow> s | Panic \<Rightarrow> ex_after_add)"

definition ex_flip_prov :: "nat \<Rightarrow> ChannelConfig" where
  "ex_flip_prov k = (if k = 0 then ex_cfg else ex_cfg\<lparr>UseBlobs := True\<rparr>)"

definition ex_flip :: "(channel, nat) channelManager" where
  "ex_flip =
     addAll (NewChannelManager ex_flip_prov ex_factory (\<lambda>_. ex_newChannel ex_cfg 0 0))
       [ex_block 10, ex_block 11]"

definition ex_flip_ready :: "(channel, nat) channelManager" where
  "ex_flip_ready =
     (case getReadyChannel ex_ops ex_flip ex_l1Head of
        Ok (r, s) \<Rightarrow> s | Panic \<Rightarrow> ex_flip)"

text \<open>After the two frames of the first channel are in flight, block 12 is added and a
  further call of \<open>TxData\<close> (at L1 head 55) builds a second channel from it: the block
  queue holds blocks 10, 11 and 12, the cursor is 3, and the first block of the second
  channel is at position 2.\<close>

definition ex_l1Head55 :: BlockID where
  "ex_l1Head55 = \<lparr>bid_Hash = 4, bid_Number = 55\<rparr>"



section \<open>Properties\<close>

lemmas ex_defs = ex_ops_def ex_NextTxData_def ex_TxFailed_def ex_TxConfirmed_def ex_AddBlock_def
  ex_CheckTimeout_def ex_OutputFrames_def ex_newChannel_def ex_cfg_def ex_factory_def ex_block_def
  ex_manager_def ex_txID_def l2BlockRefFromBlockAndL1Info_def emptyTxData_def ex_l1Head_def
  ex_after_add_def ex_two_channels_def ex_safe_def ex_two_ready_def ex_sync_def ex_late_def ex_flip_prov_def
  ex_l1Head55_def

lemmas mgr_defs = NewChannelManager_def Clear_def pendingBlocks_def TxFailed_def rewindToBlock_def
  handleChannelInvalidated_def TxConfirmed_def nextTxData_def ensureChannelWithSpace_def
  registerL1Block_def processBlocks_def outputFrames_def getReadyChannel_def queryCfg_def TxData_def
  AddL2Block_def pruneSafeBlocks_def pruneChannels_def CheckExpectedProgress_def
  Enqueue_def Peek_def DequeueN_def ToBlockID_def

subsection \<open>Runs of the example\<close>

lemma ex_after_add_alt:
  "ex_after_add = snd (AddL2Block (snd (AddL2Block ex_manager (ex_block 10))) (ex_block 11))"
  by (simp add: ex_after_add_def)

lemma ex_used_step: "\<exists>r. TxData ex_ops ex_after_add ex_l1Head = Ok (r, ex_used)"
  by (simp add: ex_used_def ex_defs mgr_defs Let_def)

lemma ex_used_no_switch: "\<not> switchesDA ex_ops ex_after_add ex_l1Head"
  by (simp add: switchesDA_def ex_defs mgr_defs Let_def)

lemma ex_used2_step: "\<exists>r. TxData ex_ops ex_used ex_l1Head = Ok (r, ex_used2)"
  by (simp add: ex_used2_def ex_used_def ex_defs mgr_defs Let_def)

lemma ex_timed_out_step: "TxConfirmed ex_ops ex_used2 ''ct'' ex_late = Ok ex_timed_out"
  by (simp add: ex_timed_out_def ex_used2_def ex_used_def ex_defs mgr_defs Let_def)

subsection \<open>getReadyChannel\<close>

lemma firstWithTxData_append:
  "\<forall>x \<in> set older. \<not> HasTxData ops (st x) \<Longrightarrow>
   firstWithTxData ops st (older @ rest) = firstWithTxData ops st rest"
  by (induction older) auto

lemma firstWithTxData_None:
  "\<forall>x \<in> set q. \<not> HasTxData ops (st x) \<Longrightarrow> firstWithTxData ops st q = None"
  by (induction q) auto

lemma firstWithTxData_Some:
  "firstWithTxData ops st q = Some ch \<Longrightarrow> ch \<in> set q \<and> HasTxData ops (st ch)"
  by (induction q) (auto split: if_splits)

text \<open>
  C3. When some channel of the queue has transaction data, \<open>getReadyChannel\<close> returns
  the first such channel in queue order and leaves the manager as it was. When no channel
  has transaction data and the number of pending blocks \<open>len(blocks) - blockCursor\<close> is
  zero, it returns the sentinel \<open>EOF\<close> and no channel.
\<close>

theorem getReadyChannel_first_or_NoData:
  "(channelQueue s = older @ c # newer
      \<and> (\<forall>x \<in> set older. \<not> HasTxData ops (store s x))
      \<and> HasTxData ops (store s c)
    \<longrightarrow> getReadyChannel ops s l1Head = Ok (Inr c, s))
   \<and> ((\<forall>x \<in> set (channelQueue s). \<not> HasTxData ops (store s x))
      \<and> int (length (blocks s)) - blockCursor s = 0
    \<longrightarrow> getReadyChannel ops s l1Head = Ok (Inl EOF, s))"
proof (intro conjI impI)
  assume a: "channelQueue s = older @ c # newer
      \<and> (\<forall>x \<in> set older. \<not> HasTxData ops (store s x)) \<and> HasTxData ops (store s c)"
  then have "firstWithTxData ops (store s) (channelQueue s) = Some c"
    by (simp add: firstWithTxData_append)
  then show "getReadyChannel ops s l1Head = Ok (Inr c, s)"
    by (simp add: getReadyChannel_def)
next
  assume a: "(\<forall>x \<in> set (channelQueue s). \<not> HasTxData ops (store s x))
      \<and> int (length (blocks s)) - blockCursor s = 0"
  then have "firstWithTxData ops (store s) (channelQueue s) = None"
    by (simp add: firstWithTxData_None)
  with a show "getReadyChannel ops s l1Head = Ok (Inl EOF, s)"
    by (simp add: getReadyChannel_def pendingBlocks_def)
qed

theorem getReadyChannel_first_or_NoData_witness:
  "getReadyChannel ex_ops ex_two_ready ex_l1Head = Ok (Inr (Suc 0), ex_two_ready)
   \<and> getReadyChannel ex_ops ex_two_channels ex_l1Head = Ok (Inl EOF, ex_two_channels)"
proof -
  have h1: "channelQueue ex_two_ready = [0] @ Suc 0 # []
      \<and> (\<forall>x \<in> set [0]. \<not> HasTxData ex_ops (store ex_two_ready x))
      \<and> HasTxData ex_ops (store ex_two_ready (Suc 0))"
    by (simp add: ex_two_ready_def ex_defs mgr_defs)
  have h2: "(\<forall>x \<in> set (channelQueue ex_two_channels).
               \<not> HasTxData ex_ops (store ex_two_channels x))
      \<and> int (length (blocks ex_two_channels)) - blockCursor ex_two_channels = 0"
    by (simp add: ex_defs mgr_defs)
  from getReadyChannel_first_or_NoData [of ex_two_ready "[0]" "Suc 0" "[]" ex_ops ex_l1Head] h1
  have 1: "getReadyChannel ex_ops ex_two_ready ex_l1Head = Ok (Inr (Suc 0), ex_two_ready)"
    by blast
  from getReadyChannel_first_or_NoData [of ex_two_channels _ _ _ ex_ops ex_l1Head] h2
  have 2: "getReadyChannel ex_ops ex_two_channels ex_l1Head = Ok (Inl EOF, ex_two_channels)"
    by blast
  from 1 2 show ?thesis by simp
qed

subsection \<open>AddL2Block\<close>

text \<open>
  C7. \<open>AddL2Block\<close> returns \<open>ErrReorg\<close> and leaves the whole manager unchanged when
  the tip is not the zero hash and differs from the parent hash of the block. Otherwise
  it appends the block to the tail of the block queue, sets the tip to the hash of the
  block and returns no error.
\<close>

theorem AddL2Block_reorg_or_append:
  "(tip s \<noteq> 0 \<and> tip s \<noteq> blk_ParentHash block \<longrightarrow>
      AddL2Block s block = (Some ErrReorg, s))
   \<and> (\<not> (tip s \<noteq> 0 \<and> tip s \<noteq> blk_ParentHash block) \<longrightarrow>
      AddL2Block s block = (None, s\<lparr>blocks := blocks s @ [block], tip := blk_Hash block\<rparr>))"
  by (simp add: AddL2Block_def Enqueue_def)

theorem AddL2Block_reorg_or_append_witness:
  "AddL2Block ex_after_add (ex_block 20) = (Some ErrReorg, ex_after_add)
   \<and> AddL2Block ex_after_add (ex_block 12)
       = (None, ex_after_add\<lparr>blocks := blocks ex_after_add @ [ex_block 12],
                             tip := blk_Hash (ex_block 12)\<rparr>)"
proof -
  have bad: "tip ex_after_add \<noteq> 0 \<and> tip ex_after_add \<noteq> blk_ParentHash (ex_block 20)"
    by (simp add: ex_after_add_def ex_manager_def NewChannelManager_def AddL2Block_def
        Enqueue_def ex_block_def)
  have good: "\<not> (tip ex_after_add \<noteq> 0 \<and> tip ex_after_add \<noteq> blk_ParentHash (ex_block 12))"
    by (simp add: ex_after_add_def ex_manager_def NewChannelManager_def AddL2Block_def
        Enqueue_def ex_block_def)
  from AddL2Block_reorg_or_append [of ex_after_add "ex_block 20"] bad
  have 1: "AddL2Block ex_after_add (ex_block 20) = (Some ErrReorg, ex_after_add)"
    by blast
  from AddL2Block_reorg_or_append [of ex_after_add "ex_block 12"] good
  have 2: "AddL2Block ex_after_add (ex_block 12)
       = (None, ex_after_add\<lparr>blocks := blocks ex_after_add @ [ex_block 12],
                             tip := blk_Hash (ex_block 12)\<rparr>)"
    by blast
  from 1 2 show ?thesis by simp
qed

subsection \<open>CheckExpectedProgress\<close>

lemma progressLoop_iff:
  "progressLoop ops st syncStatus q =
     (if \<exists>ch \<in> set q. noProgress ops syncStatus (st ch) then Some ErrNoProgress else None)"
  by (induction q) (auto simp: noProgress_def)

text \<open>
  C9. \<open>CheckExpectedProgress\<close> returns an error if and only if some channel of the
  queue is fully submitted, not timed out, has its \<open>maxInclusionBlock\<close> below the
  number of the current L1 block of the sync status, and has the number of its latest L2
  block above the safe L2 number of the sync status. Otherwise it returns no error. In
  both cases the manager is unchanged.
\<close>

theorem CheckExpectedProgress_iff:
  "(fst (CheckExpectedProgress ops m syncStatus) \<noteq> None \<longleftrightarrow>
      (\<exists>ch \<in> set (channelQueue m).
         isFullySubmitted ops (store m ch) \<and> \<not> isTimedOut ops (store m ch)
         \<and> bid_Number (CurrentL1 syncStatus) > maxInclusionBlock ops (store m ch)
         \<and> ref_Number (SafeL2 syncStatus) < ref_Number (LatestL2 ops (store m ch))))
   \<and> (fst (CheckExpectedProgress ops m syncStatus) = None
        \<or> fst (CheckExpectedProgress ops m syncStatus) = Some ErrNoProgress)
   \<and> snd (CheckExpectedProgress ops m syncStatus) = m"
  by (simp add: CheckExpectedProgress_def progressLoop_iff noProgress_def)

theorem CheckExpectedProgress_iff_witness:
  "fst (CheckExpectedProgress ex_ops ex_two_channels ex_sync) = Some ErrNoProgress
   \<and> fst (CheckExpectedProgress ex_ops ex_two_ready (ex_sync\<lparr>SafeL2 := ex_safe 30\<rparr>)) = None"
proof -
  have h1: "\<exists>ch \<in> set (channelQueue ex_two_channels).
         isFullySubmitted ex_ops (store ex_two_channels ch)
         \<and> \<not> isTimedOut ex_ops (store ex_two_channels ch)
         \<and> bid_Number (CurrentL1 ex_sync) > maxInclusionBlock ex_ops (store ex_two_channels ch)
         \<and> ref_Number (SafeL2 ex_sync) < ref_Number (LatestL2 ex_ops (store ex_two_channels ch))"
    by (simp add: ex_sync_def ex_defs mgr_defs)
  have h2: "\<not> (\<exists>ch \<in> set (channelQueue ex_two_ready).
         isFullySubmitted ex_ops (store ex_two_ready ch)
         \<and> \<not> isTimedOut ex_ops (store ex_two_ready ch)
         \<and> bid_Number (CurrentL1 (ex_sync\<lparr>SafeL2 := ex_safe 30\<rparr>))
              > maxInclusionBlock ex_ops (store ex_two_ready ch)
         \<and> ref_Number (SafeL2 (ex_sync\<lparr>SafeL2 := ex_safe 30\<rparr>))
              < ref_Number (LatestL2 ex_ops (store ex_two_ready ch)))"
    by (simp add: ex_two_ready_def ex_sync_def ex_late_def ex_flip_prov_def ex_defs mgr_defs)
  from CheckExpectedProgress_iff [of ex_ops ex_two_channels ex_sync] h1
  have 1: "fst (CheckExpectedProgress ex_ops ex_two_channels ex_sync) = Some ErrNoProgress"
    by auto
  from CheckExpectedProgress_iff [of ex_ops ex_two_ready "ex_sync\<lparr>SafeL2 := ex_safe 30\<rparr>"] h2
  have 2: "fst (CheckExpectedProgress ex_ops ex_two_ready (ex_sync\<lparr>SafeL2 := ex_safe 30\<rparr>)) = None"
    by auto
  from 1 2 show ?thesis by simp
qed

subsection \<open>pruneChannels\<close>

lemma drop_pruneCount:
  "drop (pruneCount ops st n q) q
     = dropWhile (\<lambda>ch. ref_Number (LatestL2 ops (st ch)) \<le> n) q"
  by (induction q) (auto simp: not_less)

text \<open>
  C8, as the code has it. \<open>pruneChannels\<close> removes from the head of the channel queue
  the longest run of channels whose latest L2 block number is at most the number of the
  new safe head: it stops at the first channel whose number is greater, and the channels
  behind that one stay, whatever their number. The block queue and the block cursor are
  unchanged.
\<close>

theorem pruneChannels_drops_head_run:
  "channelQueue (pruneChannels ops s newSafeHead)
     = dropWhile (\<lambda>ch. ref_Number (LatestL2 ops (store s ch)) \<le> ref_Number newSafeHead)
         (channelQueue s)
   \<and> blocks (pruneChannels ops s newSafeHead) = blocks s
   \<and> blockCursor (pruneChannels ops s newSafeHead) = blockCursor s"
  by (simp add: pruneChannels_def drop_pruneCount)

text \<open>
  C8, as the claim states it, fails: with a queue of a channel whose latest L2 block is
  20 followed by a channel that has no block yet (latest L2 number 0), pruning at safe
  head 10 removes nothing, and the second channel stays although \<open>0 \<le> 10\<close>.
\<close>

theorem pruneChannels_keeps_later_channel:
  "Suc 0 \<in> set (channelQueue (pruneChannels ex_ops ex_two_channels (ex_safe 10)))
   \<and> ref_Number (LatestL2 ex_ops (store ex_two_channels (Suc 0))) \<le> ref_Number (ex_safe 10)"
  by (simp add: pruneChannels_def ex_defs)

subsection \<open>Clear\<close>

lemma addAll_frame:
  "currentChannel (addAll s bs) = currentChannel s
   \<and> channelQueue (addAll s bs) = channelQueue s
   \<and> txChannels (addAll s bs) = txChannels s
   \<and> defaultCfg (addAll s bs) = defaultCfg s
   \<and> outFactory (addAll s bs) = outFactory s
   \<and> nextRef (addAll s bs) = nextRef s
   \<and> store (addAll s bs) = store s
   \<and> blockCursor (addAll s bs) = blockCursor s
   \<and> l1OriginLastSubmittedChannel (addAll s bs) = l1OriginLastSubmittedChannel s"
  by (induction bs arbitrary: s) (auto simp: AddL2Block_def)

text \<open>
  C10. \<open>Clear\<close> empties the block queue, resets the block cursor to 0, clears the
  tip, drops the current channel, the channel queue and the transaction index, and seeds
  \<open>l1OriginLastSubmittedChannel\<close>. It leaves \<open>defaultCfg\<close> as it was: when blocks
  are added after the reset and the factory succeeds, the first channel that
  \<open>ensureChannelWithSpace\<close> creates is built with the configuration that was in effect
  before the reset (and with the seeded L1 origin number).
\<close>

theorem Clear_resets_but_keeps_defaultCfg:
  "blocks (Clear s l1Origin) = []
   \<and> blockCursor (Clear s l1Origin) = 0
   \<and> tip (Clear s l1Origin) = 0
   \<and> currentChannel (Clear s l1Origin) = None
   \<and> channelQueue (Clear s l1Origin) = []
   \<and> txChannels (Clear s l1Origin) = Map.empty
   \<and> l1OriginLastSubmittedChannel (Clear s l1Origin) = l1Origin
   \<and> defaultCfg (Clear s l1Origin) = defaultCfg s
   \<and> (outFactory s (nextRef s) (defaultCfg s) = Inr channelOut \<longrightarrow>
        (case ensureChannelWithSpace ops (addAll (Clear s l1Origin) bs) l1Head of
           (err, s') \<Rightarrow>
             err = None
             \<and> currentChannel s' = Some (nextRef s)
             \<and> channelQueue s' = [nextRef s]
             \<and> store s' (nextRef s)
                 = newChannel ops (defaultCfg s) (bid_Number l1Origin) channelOut
             \<and> defaultCfg s' = defaultCfg s))"
proof -
  have fr: "currentChannel (addAll (Clear s l1Origin) bs) = None
    \<and> channelQueue (addAll (Clear s l1Origin) bs) = []
    \<and> defaultCfg (addAll (Clear s l1Origin) bs) = defaultCfg s
    \<and> outFactory (addAll (Clear s l1Origin) bs) = outFactory s
    \<and> nextRef (addAll (Clear s l1Origin) bs) = nextRef s
    \<and> l1OriginLastSubmittedChannel (addAll (Clear s l1Origin) bs) = l1Origin"
    by (simp add: addAll_frame) (simp add: Clear_def)
  show ?thesis
    by (simp add: ensureChannelWithSpace_def fr Let_def) (simp add: Clear_def)
qed

theorem Clear_resets_but_keeps_defaultCfg_witness:
  "channelQueue ex_two_channels = [0, Suc 0]
   \<and> (case ensureChannelWithSpace ex_ops
             (addAll (Clear ex_two_channels ex_l1Head) [ex_block 30]) ex_l1Head of
        (err, s') \<Rightarrow>
          err = None \<and> currentChannel s' = Some (Suc (Suc 0))
          \<and> channelQueue s' = [Suc (Suc 0)]
          \<and> ch_cfg (store s' (Suc (Suc 0))) = defaultCfg ex_two_channels)"
proof -
  have h: "outFactory ex_two_channels (nextRef ex_two_channels) (defaultCfg ex_two_channels)
             = Inr (Suc (Suc 0))"
    by (simp add: ex_defs mgr_defs)
  have n: "nextRef ex_two_channels = Suc (Suc 0)"
    by (simp add: ex_defs mgr_defs)
  from Clear_resets_but_keeps_defaultCfg
         [where s = ex_two_channels and channelOut = "Suc (Suc 0)" and ops = ex_ops
            and l1Origin = ex_l1Head and bs = "[ex_block 30]" and l1Head = ex_l1Head] h
  have "case ensureChannelWithSpace ex_ops
             (addAll (Clear ex_two_channels ex_l1Head) [ex_block 30]) ex_l1Head of
        (err, s') \<Rightarrow>
          err = None \<and> currentChannel s' = Some (nextRef ex_two_channels)
          \<and> channelQueue s' = [nextRef ex_two_channels]
          \<and> store s' (nextRef ex_two_channels)
                 = newChannel ex_ops (defaultCfg ex_two_channels) (bid_Number ex_l1Head)
                     (Suc (Suc 0))
          \<and> defaultCfg s' = defaultCfg ex_two_channels"
    by (elim conjE) (erule (1) mp)
  then show ?thesis
    by (auto simp: n split: prod.splits) (simp_all add: ex_defs mgr_defs)
qed

subsection \<open>pruneSafeBlocks\<close>

lemma uint_small:
  fixes w :: "64 word"
  assumes "unat w < 2 ^ 63"
  shows "uint w < 2 ^ 63"
proof -
  have "int (unat w) < int (2 ^ 63)" using assms by (simp only: of_nat_less_iff)
  then show ?thesis by simp
qed

lemma sint_small:
  fixes w :: "64 word"
  assumes "unat w < 2 ^ 63"
  shows "sint w = int (unat w)"
proof -
  have b: "uint w < 2 ^ 63" using assms by (rule uint_small)
  have "sint w = signed_take_bit 63 (uint w)" by (simp add: sint_uint)
  also have "\<dots> = uint w"
  proof (rule signed_take_bit_int_eq_self)
    have "- (2 ^ 63) \<le> (0::int)" by simp
    also have "0 \<le> uint w" by simp
    finally show "- (2 ^ 63) \<le> uint w" .
    show "uint w < 2 ^ 63" by (rule b)
  qed
  finally show ?thesis by simp
qed

lemma succ_diff_word:
  fixes a old :: "64 word"
  assumes "unat a + 1 < 2 ^ 64"
    and "n = int (unat a) + 1 - int (unat old)"
    and "0 < n"
  shows "a + 1 \<noteq> old \<and> \<not> a + 1 < old \<and> unat (a + 1 - old) = nat n"
proof -
  have u: "unat (a + 1) = unat a + 1"
    using assms(1) by (simp add: unat_add_lem [THEN iffD1])
  have le: "unat old < unat (a + 1)"
    using assms u by linarith
  then have lt: "old < a + 1" by (simp add: word_less_nat_alt)
  have "unat (a + 1 - old) = unat (a + 1) - unat old"
    using le by (simp add: unat_sub word_le_nat_alt)
  then have "unat (a + 1 - old) = nat n"
    using assms u le by linarith
  with lt show ?thesis by auto
qed

lemma unat_pred:
  fixes w :: "64 word"
  shows "unat w \<noteq> 0 \<Longrightarrow> unat (w - 1) = unat w - 1"
  by (metis unat_minus_one unsigned_0)

lemma gt_len:
  fixes w :: "64 word"
  assumes "length q < 2 ^ 63"
  shows "w > word_of_nat (length q) \<longleftrightarrow> unat w > length q"
proof -
  have "length q < 2 ^ 64" using assms by simp
  then have "unat (word_of_nat (length q) :: 64 word) = length q"
    by (simp add: unat_of_nat)
  then show ?thesis by (simp add: word_less_nat_alt)
qed

text \<open>
  C4, as the code has it. Let the block queue be non-empty (its length is a Go \<open>int\<close>,
  so below \<open>2^63\<close>), let \<open>newSafeHead.Number + 1\<close> not overflow \<open>uint64\<close>, and let
  \<open>n = newSafeHead.Number + 1 - oldestBlock.Number\<close> satisfy \<open>0 < n \<le> len(blocks)\<close>
  and \<open>blocks[n-1].Hash = newSafeHead.Hash\<close>. Then \<open>pruneSafeBlocks\<close> dequeues exactly
  \<open>n\<close> blocks from the head of the queue and sets the cursor to \<open>blockCursor - n\<close>
  (which is \<open>max(0, blockCursor - n)\<close>) when \<open>n \<le> blockCursor\<close>; when
  \<open>blockCursor < n\<close> it panics.
\<close>

theorem pruneSafeBlocks_dequeues_or_panics:
  assumes "blocks s \<noteq> []"
    and "length (blocks s) < 2 ^ 63"
    and "unat (ref_Number newSafeHead) + 1 < 2 ^ 64"
    and "n = int (unat (ref_Number newSafeHead)) + 1 - int (unat (blk_Number (hd (blocks s))))"
    and "0 < n" and "n \<le> int (length (blocks s))"
    and "blk_Hash (blocks s ! (nat n - 1)) = ref_Hash newSafeHead"
  shows "pruneSafeBlocks s newSafeHead =
     (if blockCursor s < n then Panic
      else Ok (s\<lparr>blocks := drop (nat n) (blocks s),
                 blockCursor := max 0 (blockCursor s - n)\<rparr>))"
proof -
  let ?w = "ref_Number newSafeHead + 1 - blk_Number (hd (blocks s))"
  from succ_diff_word [OF assms(3) assms(4) assms(5)]
  have ne: "ref_Number newSafeHead + 1 \<noteq> blk_Number (hd (blocks s))"
    and nl: "\<not> ref_Number newSafeHead + 1 < blk_Number (hd (blocks s))"
    and un: "unat ?w = nat n" by auto
  have pk: "Peek (blocks s) = Some (hd (blocks s))"
    using assms(1) by (cases "blocks s") (simp_all add: Peek_def)
  have small: "unat ?w < 2 ^ 63" using un assms(2,6) by linarith
  have si: "sint ?w = n" using sint_small [OF small] un assms(5) by simp
  have ng: "\<not> ?w > word_of_nat (length (blocks s))"
    using gt_len [OF assms(2), of ?w] un assms(6) by simp
  have p1: "unat (?w - 1) = nat n - 1"
    using unat_pred [of ?w] un assms(5) by simp
  have p2: "unat (ref_Number newSafeHead - blk_Number (hd (blocks s))) = nat n - 1"
    using p1 by simp
  have inr: "nat n - 1 < length (blocks s)"
    using assms(5,6) by linarith
  have dq: "DequeueN (blocks s) n = Ok (drop (nat n) (blocks s))"
    using assms(5,6) by (simp add: DequeueN_def)
  show ?thesis
    using ne nl ng inr assms(7)
    by (simp add: pruneSafeBlocks_def pk Let_def si p2 dq)
qed

theorem pruneSafeBlocks_dequeues_or_panics_witness:
  "pruneSafeBlocks ex_used (ex_safe 10)
     = Ok (ex_used\<lparr>blocks := [ex_block 11], blockCursor := 1\<rparr>)
   \<and> pruneSafeBlocks ex_after_add (ex_safe 10) = Panic"
proof -
  have b: "blocks ex_used = [ex_block 10, ex_block 11] \<and> blockCursor ex_used = 2"
    by (simp add: ex_used_def ex_defs mgr_defs Let_def)
  have b': "blocks ex_after_add = [ex_block 10, ex_block 11] \<and> blockCursor ex_after_add = 0"
    by (simp add: ex_defs mgr_defs)
  have n: "(1::int) = int (unat (ref_Number (ex_safe 10))) + 1
              - int (unat (blk_Number (hd [ex_block 10, ex_block 11])))"
    by (simp add: ex_defs)
  have u: "unat (ref_Number (ex_safe 10)) + 1 < 2 ^ 64"
    by (simp add: ex_defs)
  have h: "blk_Hash ([ex_block 10, ex_block 11] ! (nat 1 - 1)) = ref_Hash (ex_safe 10)"
    by (simp add: ex_defs)
  from pruneSafeBlocks_dequeues_or_panics [of ex_used "ex_safe 10" 1] b n u h
  have 1: "pruneSafeBlocks ex_used (ex_safe 10)
     = Ok (ex_used\<lparr>blocks := [ex_block 11], blockCursor := 1\<rparr>)"
    by simp
  from pruneSafeBlocks_dequeues_or_panics [of ex_after_add "ex_safe 10" 1] b' n u h
  have 2: "pruneSafeBlocks ex_after_add (ex_safe 10) = Panic"
    by simp
  from 1 2 show ?thesis by simp
qed

text \<open>
  C4, as the claim states it, fails: with blocks 10 and 11 queued and the cursor at 0,
  the safe head at block 10 gives \<open>n = 1\<close> with a matching hash, and
  \<open>pruneSafeBlocks\<close> panics on the negative cursor instead of setting it to 0.
\<close>

theorem pruneSafeBlocks_panics_below_cursor:
  "blocks ex_after_add \<noteq> []
   \<and> int (unat (ref_Number (ex_safe 10))) + 1
       - int (unat (blk_Number (hd (blocks ex_after_add)))) = 1
   \<and> (1::int) \<le> int (length (blocks ex_after_add))
   \<and> blk_Hash (blocks ex_after_add ! 0) = ref_Hash (ex_safe 10)
   \<and> blockCursor ex_after_add = 0
   \<and> pruneSafeBlocks ex_after_add (ex_safe 10) = Panic"
  by (simp add: ex_defs mgr_defs)

subsection \<open>rewindToBlock\<close>

lemma rewindToBlock_Ok_iff:
  "rewindToBlock s block = Ok s' \<longleftrightarrow>
     blocks s \<noteq> []
     \<and> unat (bid_Number block - blk_Number (hd (blocks s))) < length (blocks s)
     \<and> blk_Hash (blocks s ! unat (bid_Number block - blk_Number (hd (blocks s)))) = bid_Hash block
     \<and> bid_Number block - blk_Number (hd (blocks s)) < word_of_int (blockCursor s)
     \<and> s' = s\<lparr>blockCursor := sint (bid_Number block - blk_Number (hd (blocks s)))\<rparr>"
  by (cases "blocks s") (auto simp: rewindToBlock_def Let_def)




text \<open>
  C5, evaluated where the code departs from it. Blocks 10 and 11 are queued, one channel
  holds both and its two frames are in flight. The first confirmation above the deadline
  invalidates the channel and rewinds the cursor to 0. In that state block 10 is present
  at position 0 and the cursor is not ahead of it: \<open>rewindToBlock\<close> panics, although
  the block is present, and so does the confirmation of the second transaction above
  the deadline.
\<close>

theorem rewindToBlock_panics_on_present_block:
  "blocks ex_timed_out = [ex_block 10, ex_block 11]
   \<and> blockCursor ex_timed_out = 0
   \<and> rewindToBlock ex_timed_out (ToBlockID (ex_block 10)) = Panic
   \<and> txChannels ex_timed_out ''cti'' = Some 0
   \<and> TxConfirmed ex_ops ex_timed_out ''cti'' ex_late = Panic"
  by (simp add: ex_timed_out_def ex_used2_def ex_used_def ex_late_def ex_defs mgr_defs Let_def)

subsection \<open>handleChannelInvalidated\<close>





subsection \<open>The transaction index and the channel queue\<close>

lemma ensureChannelWithSpace_refs:
  assumes "ensureChannelWithSpace ops s l1Head = (e, s1)"
  shows "txChannels s1 = txChannels s \<and> set (channelQueue s) \<subseteq> set (channelQueue s1)
     \<and> (current_in_queue s \<longrightarrow> current_in_queue s1)
     \<and> cfgQueries s1 = cfgQueries s \<and> defaultCfg s1 = defaultCfg s
     \<and> cfgProvider s1 = cfgProvider s"
  using assms
  by (auto simp: ensureChannelWithSpace_def current_in_queue_def Let_def
      split: if_splits sum.splits option.splits)

lemma processBlocks_refs:
  assumes "processBlocks ops s = Ok (e, s1)"
  shows "txChannels s1 = txChannels s \<and> channelQueue s1 = channelQueue s
     \<and> currentChannel s1 = currentChannel s
     \<and> cfgQueries s1 = cfgQueries s \<and> defaultCfg s1 = defaultCfg s
     \<and> cfgProvider s1 = cfgProvider s"
  using assms
  by (auto simp: processBlocks_def split: if_splits option.splits prod.splits sum.splits)

lemma registerL1Block_refs:
  assumes "registerL1Block ops s l1Head = Ok s1"
  shows "txChannels s1 = txChannels s \<and> channelQueue s1 = channelQueue s
     \<and> currentChannel s1 = currentChannel s
     \<and> cfgQueries s1 = cfgQueries s \<and> defaultCfg s1 = defaultCfg s
     \<and> cfgProvider s1 = cfgProvider s"
  using assms by (auto simp: registerL1Block_def split: option.splits)

lemma outputFrames_refs:
  assumes "outputFrames ops s = Ok (e, s1)"
  shows "txChannels s1 = txChannels s \<and> channelQueue s1 = channelQueue s
     \<and> currentChannel s1 = currentChannel s
     \<and> cfgQueries s1 = cfgQueries s \<and> defaultCfg s1 = defaultCfg s
     \<and> cfgProvider s1 = cfgProvider s"
  using assms by (auto simp: outputFrames_def split: option.splits prod.splits)

lemma getReadyChannel_refs:
  assumes "getReadyChannel ops s l1Head = Ok (r, s')"
  shows "txChannels s' = txChannels s \<and> set (channelQueue s) \<subseteq> set (channelQueue s')
     \<and> (current_in_queue s \<longrightarrow>
          current_in_queue s' \<and> (\<forall>ch. r = Inr ch \<longrightarrow> ch \<in> set (channelQueue s')))
     \<and> cfgQueries s' = cfgQueries s \<and> defaultCfg s' = defaultCfg s
     \<and> cfgProvider s' = cfgProvider s"
proof (cases "firstWithTxData ops (store s) (channelQueue s)")
  case (Some ch)
  with assms have "r = Inr ch" "s' = s" by (simp_all add: getReadyChannel_def)
  with Some show ?thesis by (auto dest: firstWithTxData_Some)
next
  case None
  show ?thesis
  proof (cases "pendingBlocks s = 0")
    case True
    with None assms show ?thesis by (auto simp: getReadyChannel_def)
  next
    case False
    obtain e1 s1 where en: "ensureChannelWithSpace ops s l1Head = (e1, s1)"
      by (cases "ensureChannelWithSpace ops s l1Head")
    note r1 = ensureChannelWithSpace_refs [OF en]
    show ?thesis
    proof (cases e1)
      case (Some err)
      with None False en assms have "s' = s1" "r = Inl err"
        by (simp_all add: getReadyChannel_def)
      with r1 show ?thesis by simp
    next
      case e1: None
      from None False en e1 assms obtain e2 s2 where pb: "processBlocks ops s1 = Ok (e2, s2)"
        by (cases "processBlocks ops s1") (auto simp: getReadyChannel_def)
      note r2 = processBlocks_refs [OF pb]
      show ?thesis
      proof (cases e2)
        case (Some err)
        with None False en e1 pb assms have "s' = s2" "r = Inl err"
          by (simp_all add: getReadyChannel_def)
        with r1 r2 show ?thesis by (simp add: current_in_queue_def)
      next
        case e2: None
        from None False en e1 pb e2 assms obtain s3 where rg: "registerL1Block ops s2 l1Head = Ok s3"
          by (cases "registerL1Block ops s2 l1Head") (auto simp: getReadyChannel_def)
        note r3 = registerL1Block_refs [OF rg]
        from None False en e1 pb e2 rg assms obtain e4 s4 where ou: "outputFrames ops s3 = Ok (e4, s4)"
          by (cases "outputFrames ops s3") (auto simp: getReadyChannel_def)
        note r4 = outputFrames_refs [OF ou]
        have same: "txChannels s4 = txChannels s \<and> set (channelQueue s) \<subseteq> set (channelQueue s4)
          \<and> (current_in_queue s \<longrightarrow> current_in_queue s4)
          \<and> cfgQueries s4 = cfgQueries s \<and> defaultCfg s4 = defaultCfg s
          \<and> cfgProvider s4 = cfgProvider s"
          using r1 r2 r3 r4 by (simp add: current_in_queue_def)
        from None False en e1 pb e2 rg ou assms
        have fin: "s' = s4 \<and> (\<forall>ch. r = Inr ch \<longrightarrow> currentChannel s4 = Some ch)"
          by (auto simp: getReadyChannel_def split: option.splits if_splits)
        with same show ?thesis by (auto simp: current_in_queue_def)
      qed
    qed
  qed
qed

lemma nextTxData_refs:
  assumes "nextTxData ops s (Some ch) = (r, s')"
  shows "channelQueue s' = channelQueue s \<and> currentChannel s' = currentChannel s
     \<and> cfgQueries s' = cfgQueries s \<and> defaultCfg s' = defaultCfg s
     \<and> (\<forall>t c. txChannels s' t = Some c \<longrightarrow> txChannels s t = Some c \<or> c = ch)"
  using assms
  by (auto simp: nextTxData_def Let_def split: if_splits prod.splits)

lemma pruneSafeBlocks_refs:
  assumes "pruneSafeBlocks s h = Ok s'"
    and "txChannels_in_queue s \<and> current_in_queue s"
  shows "txChannels_in_queue s' \<and> current_in_queue s'"
  using assms
  by (auto simp: pruneSafeBlocks_def Clear_def Let_def txChannels_in_queue_def
      current_in_queue_def DequeueN_def split: option.splits if_splits result.splits)

lemma TxData_keeps:
  assumes "TxData ops s l1Head = Ok (r, s')"
    and "\<not> switchesDA ops s l1Head"
    and "txChannels_in_queue s \<and> current_in_queue s"
  shows "txChannels_in_queue s' \<and> current_in_queue s'"
proof -
  from assms(1) obtain r1 s1 where g: "getReadyChannel ops s l1Head = Ok (r1, s1)"
    by (cases "getReadyChannel ops s l1Head") (auto simp: TxData_def)
  note gr = getReadyChannel_refs [OF g]
  have i1: "txChannels_in_queue s1 \<and> current_in_queue s1"
    using gr assms(3) by (auto simp: txChannels_in_queue_def)
  show ?thesis
  proof (cases r1)
    case (Inl err)
    with g assms(1) have "s' = s1" by (simp add: TxData_def)
    with i1 show ?thesis by simp
  next
    case (Inr ch)
    have chq: "ch \<in> set (channelQueue s1)" using gr assms(3) Inr by simp
    have "\<exists>s2. channelQueue s2 = channelQueue s1 \<and> currentChannel s2 = currentChannel s1
             \<and> txChannels s2 = txChannels s1 \<and> nextTxData ops s2 (Some ch) = (r, s')"
    proof (cases "NoneSubmitted ops (store s1 ch)")
      case False
      with g Inr assms(1) have "nextTxData ops s1 (Some ch) = (r, s')"
        by (simp add: TxData_def)
      then show ?thesis by blast
    next
      case True
      with g Inr assms(2)
      have eq: "UseBlobs (cfgProvider s1 (cfgQueries s1)) = UseBlobs (defaultCfg s1)"
        by (simp add: switchesDA_def)
      with g Inr True assms(1)
      have "nextTxData ops (s1\<lparr>cfgQueries := Suc (cfgQueries s1)\<rparr>) (Some ch) = (r, s')"
        by (simp add: TxData_def queryCfg_def)
      then show ?thesis
        by (intro exI [of _ "s1\<lparr>cfgQueries := Suc (cfgQueries s1)\<rparr>"]) simp
    qed
    then obtain s2 where s2: "channelQueue s2 = channelQueue s1"
      "currentChannel s2 = currentChannel s1" "txChannels s2 = txChannels s1"
      and nx: "nextTxData ops s2 (Some ch) = (r, s')" by blast
    from nextTxData_refs [OF nx] s2 i1 chq show ?thesis
      unfolding txChannels_in_queue_def current_in_queue_def by metis
  qed
qed

lemma TxConfirmed_keeps:
  assumes "TxConfirmed ops s txid inclusionBlock = Ok s'"
    and "\<not> confirmTimesOut ops s txid inclusionBlock"
    and "txChannels_in_queue s \<and> current_in_queue s"
  shows "txChannels_in_queue s' \<and> current_in_queue s'"
  using assms
  by (auto simp: TxConfirmed_def confirmTimesOut_def txChannels_in_queue_def
      current_in_queue_def Let_def split: option.splits prod.splits if_splits)

lemma reachable_keeping_inv:
  "reachable_keeping ops s \<Longrightarrow> txChannels_in_queue s \<and> current_in_queue s"
proof (induction rule: reachable_keeping.induct)
  case (keep_fresh prov fac mem)
  show ?case
    by (simp add: NewChannelManager_def txChannels_in_queue_def current_in_queue_def)
next
  case (keep_Clear s l1Origin)
  show ?case by (simp add: Clear_def txChannels_in_queue_def current_in_queue_def)
next
  case (keep_AddL2Block s block)
  then show ?case
    by (simp add: AddL2Block_def txChannels_in_queue_def current_in_queue_def)
next
  case (keep_TxData s l1Head r s')
  from keep_TxData.hyps(2,3) keep_TxData.IH show ?case by (rule TxData_keeps)
next
  case (keep_TxFailed s txid)
  then show ?case
    by (auto simp: TxFailed_def txChannels_in_queue_def current_in_queue_def
        split: option.splits if_splits)
next
  case (keep_TxConfirmed s txid inclusionBlock s')
  from keep_TxConfirmed.hyps(2,3) keep_TxConfirmed.IH show ?case by (rule TxConfirmed_keeps)
next
  case (keep_pruneSafeBlocks s newSafeHead s')
  from keep_pruneSafeBlocks.hyps(2) keep_pruneSafeBlocks.IH show ?case
    by (rule pruneSafeBlocks_refs)
qed

text \<open>
  C2, as the code has it. In every state reachable from a fresh or cleared manager by
  \<open>AddL2Block\<close>, \<open>TxFailed\<close>, \<open>pruneSafeBlocks\<close>, calls of \<open>TxData\<close> that do not
  switch the DA type and calls of \<open>TxConfirmed\<close> that do not time the channel out (so
  without \<open>pruneChannels\<close> and without \<open>handleChannelInvalidated\<close>), every key of
  \<open>txChannels\<close> maps to a channel of the channel queue.
\<close>

theorem txChannels_in_queue_while_keeping:
  "reachable_keeping ops s \<Longrightarrow> txChannels_in_queue s"
  by (simp add: reachable_keeping_inv)

theorem txChannels_in_queue_while_keeping_witness:
  "reachable_keeping ex_ops ex_used \<and> txChannels ex_used ''ct'' = Some 0
   \<and> 0 \<in> set (channelQueue ex_used)"
proof -
  have "reachable_keeping ex_ops ex_manager"
    unfolding ex_manager_def by (rule keep_fresh)
  then have "reachable_keeping ex_ops ex_after_add"
    unfolding ex_after_add_alt by (intro keep_AddL2Block)
  with ex_used_step ex_used_no_switch have k: "reachable_keeping ex_ops ex_used"
    by (blast intro: keep_TxData)
  have t: "txChannels ex_used ''ct'' = Some 0"
    by (simp add: ex_used_def ex_defs mgr_defs Let_def)
  from txChannels_in_queue_while_keeping [OF k] t have "0 \<in> set (channelQueue ex_used)"
    by (simp add: txChannels_in_queue_def)
  with k t show ?thesis by simp
qed

text \<open>
  C2, as the claim states it, fails: \<open>pruneChannels\<close> and \<open>handleChannelInvalidated\<close>
  take channels out of the queue and leave their transactions in the index. After
  adding blocks 10 and 11 and one call of \<open>TxData\<close>, pruning at safe head 11 removes
  the channel of the transaction in flight; after two calls of \<open>TxData\<close>, confirming
  the first transaction above the deadline removes the channel of the second.
\<close>

theorem txChannels_outlive_dropped_channels:
  "reachable ex_ops ex_pruned \<and> \<not> txChannels_in_queue ex_pruned
   \<and> reachable ex_ops ex_timed_out \<and> \<not> txChannels_in_queue ex_timed_out"
proof -
  have "reachable ex_ops ex_manager"
    unfolding ex_manager_def by (rule reach_fresh)
  then have "reachable ex_ops ex_after_add"
    unfolding ex_after_add_alt by (intro reach_AddL2Block)
  with ex_used_step have u: "reachable ex_ops ex_used"
    by (blast intro: reach_TxData)
  then have p: "reachable ex_ops ex_pruned"
    unfolding ex_pruned_def by (rule reach_pruneChannels)
  from u ex_used2_step have "reachable ex_ops ex_used2"
    by (blast intro: reach_TxData)
  with ex_timed_out_step have t: "reachable ex_ops ex_timed_out"
    by (blast intro: reach_TxConfirmed)
  have "txChannels ex_pruned ''ct'' = Some 0 \<and> 0 \<notin> set (channelQueue ex_pruned)"
    by (simp add: ex_pruned_def ex_used_def ex_defs mgr_defs Let_def)
  then have np: "\<not> txChannels_in_queue ex_pruned"
    by (auto simp: txChannels_in_queue_def)
  have "txChannels ex_timed_out ''cti'' = Some 0 \<and> 0 \<notin> set (channelQueue ex_timed_out)"
    by (simp add: ex_timed_out_def ex_used2_def ex_used_def ex_defs mgr_defs Let_def)
  then have nt: "\<not> txChannels_in_queue ex_timed_out"
    by (auto simp: txChannels_in_queue_def)
  from p np t nt show ?thesis by simp
qed

subsection \<open>TxData\<close>

lemma getReadyChannel_HasTxData:
  assumes "getReadyChannel ops s l1Head = Ok (Inr ch, s1)"
  shows "HasTxData ops (store s1 ch)"
  using assms
  by (auto simp: getReadyChannel_def dest: firstWithTxData_Some
      split: option.splits if_splits prod.splits result.splits)

lemma nextTxData_frame:
  "HasTxData ops (store s ch) \<Longrightarrow>
   fst (nextTxData ops s (Some ch)) = Inr (fst (NextTxData ops (store s ch)))"
  by (simp add: nextTxData_def Let_def split: prod.splits)

lemma getReadyChannel_queue:
  assumes "getReadyChannel ops s l1Head = Ok (Inr ch, s1)"
  shows "channelQueue s1
           = (if createsChannel ops s then channelQueue s @ [nextRef s] else channelQueue s)"
proof (cases "firstWithTxData ops (store s) (channelQueue s)")
  case (Some c)
  with assms have "s1 = s" by (simp add: getReadyChannel_def)
  with Some show ?thesis by (simp add: createsChannel_def)
next
  case None
  with assms have np: "pendingBlocks s \<noteq> 0"
    by (auto simp: getReadyChannel_def split: if_splits)
  obtain e1 s' where en: "ensureChannelWithSpace ops s l1Head = (e1, s')"
    by (cases "ensureChannelWithSpace ops s l1Head")
  from None np en assms have e1: "e1 = None"
    by (cases e1) (auto simp: getReadyChannel_def)
  from en e1 None
  have q1: "channelQueue s'
           = (if createsChannel ops s then channelQueue s @ [nextRef s] else channelQueue s)"
    by (auto simp: ensureChannelWithSpace_def createsChannel_def Let_def
        split: if_splits sum.splits option.splits)
  from None np en e1 assms obtain e2 s2 where pb: "processBlocks ops s' = Ok (e2, s2)"
    by (cases "processBlocks ops s'") (auto simp: getReadyChannel_def)
  from None np en e1 pb assms have e2: "e2 = None"
    by (cases e2) (auto simp: getReadyChannel_def)
  from None np en e1 pb e2 assms obtain s3 where rg: "registerL1Block ops s2 l1Head = Ok s3"
    by (cases "registerL1Block ops s2 l1Head") (auto simp: getReadyChannel_def)
  from None np en e1 pb e2 rg assms obtain e4 s4 where ou: "outputFrames ops s3 = Ok (e4, s4)"
    by (cases "outputFrames ops s3") (auto simp: getReadyChannel_def)
  from None np en e1 pb e2 rg ou assms have "s1 = s4"
    by (auto simp: getReadyChannel_def split: option.splits if_splits)
  with processBlocks_refs [OF pb] registerL1Block_refs [OF rg] outputFrames_refs [OF ou] q1
  show ?thesis by simp
qed

lemma handleChannelInvalidated_refs:
  assumes "handleChannelInvalidated ops s c = Ok s'"
  shows "cfgQueries s' = cfgQueries s \<and> defaultCfg s' = defaultCfg s
     \<and> cfgProvider s' = cfgProvider s"
  using assms
  by (auto simp: handleChannelInvalidated_def rewindToBlock_Ok_iff
      split: if_splits result.splits)

lemma ex_ready_step: "getReadyChannel ex_ops ex_after_add ex_l1Head = Ok (Inr 0, ex_ready)"
  by (simp add: ex_ready_def ex_defs mgr_defs Let_def)

lemma ex_flip_ready_step: "getReadyChannel ex_ops ex_flip ex_l1Head = Ok (Inr 0, ex_flip_ready)"
  by (simp add: ex_flip_ready_def ex_flip_def ex_flip_prov_def ex_defs mgr_defs Let_def)

lemma ex_used_ready_step: "getReadyChannel ex_ops ex_used ex_l1Head = Ok (Inr 0, ex_used)"
  by (simp add: ex_used_def ex_defs mgr_defs Let_def)

lemma ex_flip_result:
  "\<exists>r s'. TxData ex_ops ex_flip ex_l1Head = Ok (Inr r, s') \<and> channelQueue s' = [Suc 0]
      \<and> ch_cfg (store s' (Suc 0)) = ex_cfg\<lparr>UseBlobs := True\<rparr>"
  by (simp add: ex_flip_def ex_flip_prov_def ex_defs mgr_defs Let_def)

text \<open>
  C1, as the code has it. \<open>TxData\<close> follows the reconfiguration ordering. An error of \<open>getReadyChannel\<close>
  (the sentinel \<open>EOF\<close> included) is returned as it is. When the ready channel has
  already had a frame submitted, \<open>TxData\<close> returns its next frame without querying the
  configuration provider and without changing \<open>defaultCfg\<close>. When nothing was submitted
  and the provider's configuration has the same \<open>UseBlobs\<close> as \<open>defaultCfg\<close>, it
  returns the next frame of that channel; the provider was queried once, \<open>defaultCfg\<close>
  is unchanged, and the channel queue is as \<open>getReadyChannel\<close> left it: the queue
  before the call when a queued channel had transaction data or the current channel was
  open, and that queue extended by the newly created channel otherwise. Only when \<open>UseBlobs\<close> differs
  does it invalidate that channel, set \<open>defaultCfg\<close> to the new configuration and run
  \<open>getReadyChannel\<close> once more, whose channel (or error) gives the result; a panic of
  the invalidation is a panic of \<open>TxData\<close>.
\<close>

theorem TxData_reconfiguration_order:
  "(getReadyChannel ops s l1Head = Ok (Inl err, s1) \<longrightarrow>
      TxData ops s l1Head = Ok (Inl err, s1))
   \<and> (getReadyChannel ops s l1Head = Ok (Inr ch, s1) \<longrightarrow>
      (\<not> NoneSubmitted ops (store s1 ch) \<longrightarrow>
         TxData ops s l1Head = Ok (nextTxData ops s1 (Some ch))
         \<and> fst (nextTxData ops s1 (Some ch)) = Inr (fst (NextTxData ops (store s1 ch)))
         \<and> cfgQueries (snd (nextTxData ops s1 (Some ch))) = cfgQueries s
         \<and> defaultCfg (snd (nextTxData ops s1 (Some ch))) = defaultCfg s)
      \<and> (NoneSubmitted ops (store s1 ch)
           \<and> UseBlobs (cfgProvider s (cfgQueries s)) = UseBlobs (defaultCfg s) \<longrightarrow>
         TxData ops s l1Head
           = Ok (nextTxData ops (s1\<lparr>cfgQueries := Suc (cfgQueries s1)\<rparr>) (Some ch))
         \<and> (\<forall>r s'. TxData ops s l1Head = Ok (r, s') \<longrightarrow>
               r = Inr (fst (NextTxData ops (store s1 ch)))
               \<and> channelQueue s' = channelQueue s1
               \<and> channelQueue s'
                   = (if createsChannel ops s then channelQueue s @ [nextRef s]
                      else channelQueue s)
               \<and> defaultCfg s' = defaultCfg s
               \<and> cfgQueries s' = Suc (cfgQueries s)))
      \<and> (NoneSubmitted ops (store s1 ch)
           \<and> UseBlobs (cfgProvider s (cfgQueries s)) \<noteq> UseBlobs (defaultCfg s) \<longrightarrow>
         (case handleChannelInvalidated ops (s1\<lparr>cfgQueries := Suc (cfgQueries s1)\<rparr>) ch of
            Panic \<Rightarrow> TxData ops s l1Head = Panic
          | Ok s3 \<Rightarrow>
              TxData ops s l1Head
                = (case getReadyChannel ops
                          (s3\<lparr>defaultCfg := cfgProvider s (cfgQueries s)\<rparr>) l1Head of
                     Panic \<Rightarrow> Panic
                   | Ok (Inl err', s4) \<Rightarrow> Ok (Inl err', s4)
                   | Ok (Inr ch', s4) \<Rightarrow> Ok (nextTxData ops s4 (Some ch')))
              \<and> (\<forall>r s'. TxData ops s l1Head = Ok (r, s') \<longrightarrow>
                    defaultCfg s' = cfgProvider s (cfgQueries s)
                    \<and> cfgQueries s' = Suc (cfgQueries s)))))"
proof (intro conjI impI)
  assume "getReadyChannel ops s l1Head = Ok (Inl err, s1)"
  then show "TxData ops s l1Head = Ok (Inl err, s1)" by (simp add: TxData_def)
next
  assume g: "getReadyChannel ops s l1Head = Ok (Inr ch, s1)"
    and n: "\<not> NoneSubmitted ops (store s1 ch)"
  from g n show "TxData ops s l1Head = Ok (nextTxData ops s1 (Some ch))"
    by (simp add: TxData_def)
  from getReadyChannel_HasTxData [OF g]
  show "fst (nextTxData ops s1 (Some ch)) = Inr (fst (NextTxData ops (store s1 ch)))"
    by (rule nextTxData_frame)
  obtain r s' where nx: "nextTxData ops s1 (Some ch) = (r, s')"
    by (cases "nextTxData ops s1 (Some ch)")
  from getReadyChannel_refs [OF g] nextTxData_refs [OF nx] nx
  show "cfgQueries (snd (nextTxData ops s1 (Some ch))) = cfgQueries s"
    and "defaultCfg (snd (nextTxData ops s1 (Some ch))) = defaultCfg s"
    by simp_all
next
  assume g: "getReadyChannel ops s l1Head = Ok (Inr ch, s1)"
    and n: "NoneSubmitted ops (store s1 ch)
           \<and> UseBlobs (cfgProvider s (cfgQueries s)) = UseBlobs (defaultCfg s)"
  note gr = getReadyChannel_refs [OF g]
  let ?s2 = "s1\<lparr>cfgQueries := Suc (cfgQueries s1)\<rparr>"
  from g n gr show t: "TxData ops s l1Head = Ok (nextTxData ops ?s2 (Some ch))"
    by (simp add: TxData_def queryCfg_def)
  show "\<forall>r s'. TxData ops s l1Head = Ok (r, s') \<longrightarrow>
               r = Inr (fst (NextTxData ops (store s1 ch)))
               \<and> channelQueue s' = channelQueue s1
               \<and> channelQueue s'
                   = (if createsChannel ops s then channelQueue s @ [nextRef s]
                      else channelQueue s)
               \<and> defaultCfg s' = defaultCfg s
               \<and> cfgQueries s' = Suc (cfgQueries s)"
  proof (intro allI impI)
    fix r s'
    assume "TxData ops s l1Head = Ok (r, s')"
    with t have nx: "nextTxData ops ?s2 (Some ch) = (r, s')" by simp
    have "HasTxData ops (store ?s2 ch)"
      using getReadyChannel_HasTxData [OF g] by simp
    from nextTxData_frame [OF this] nx
    have fr: "r = Inr (fst (NextTxData ops (store s1 ch)))" by simp
    from nextTxData_refs [OF nx] gr fr getReadyChannel_queue [OF g]
    show "r = Inr (fst (NextTxData ops (store s1 ch)))
               \<and> channelQueue s' = channelQueue s1
               \<and> channelQueue s'
                   = (if createsChannel ops s then channelQueue s @ [nextRef s]
                      else channelQueue s)
               \<and> defaultCfg s' = defaultCfg s
               \<and> cfgQueries s' = Suc (cfgQueries s)"
      by simp
  qed
next
  assume g: "getReadyChannel ops s l1Head = Ok (Inr ch, s1)"
    and n: "NoneSubmitted ops (store s1 ch)
           \<and> UseBlobs (cfgProvider s (cfgQueries s)) \<noteq> UseBlobs (defaultCfg s)"
  note gr = getReadyChannel_refs [OF g]
  let ?s2 = "s1\<lparr>cfgQueries := Suc (cfgQueries s1)\<rparr>"
  let ?new = "cfgProvider s (cfgQueries s)"
  show "case handleChannelInvalidated ops ?s2 ch of
            Panic \<Rightarrow> TxData ops s l1Head = Panic
          | Ok s3 \<Rightarrow>
              TxData ops s l1Head
                = (case getReadyChannel ops (s3\<lparr>defaultCfg := ?new\<rparr>) l1Head of
                     Panic \<Rightarrow> Panic
                   | Ok (Inl err', s4) \<Rightarrow> Ok (Inl err', s4)
                   | Ok (Inr ch', s4) \<Rightarrow> Ok (nextTxData ops s4 (Some ch')))
              \<and> (\<forall>r s'. TxData ops s l1Head = Ok (r, s') \<longrightarrow>
                    defaultCfg s' = ?new \<and> cfgQueries s' = Suc (cfgQueries s))"
  proof (cases "handleChannelInvalidated ops ?s2 ch")
    case Panic
    with g n gr show ?thesis by (simp add: TxData_def queryCfg_def)
  next
    case (Ok s3)
    note hr = handleChannelInvalidated_refs [OF Ok]
    let ?s3 = "s3\<lparr>defaultCfg := ?new\<rparr>"
    from g n gr Ok
    have t: "TxData ops s l1Head
                = (case getReadyChannel ops ?s3 l1Head of
                     Panic \<Rightarrow> Panic
                   | Ok (Inl err', s4) \<Rightarrow> Ok (Inl err', s4)
                   | Ok (Inr ch', s4) \<Rightarrow> Ok (nextTxData ops s4 (Some ch')))"
      by (simp add: TxData_def queryCfg_def)
    have "defaultCfg s' = ?new \<and> cfgQueries s' = Suc (cfgQueries s)"
      if td: "TxData ops s l1Head = Ok (r, s')" for r s'
    proof -
      from td t obtain r4 s4 where g2: "getReadyChannel ops ?s3 l1Head = Ok (r4, s4)"
        by (cases "getReadyChannel ops ?s3 l1Head") auto
      note gr2 = getReadyChannel_refs [OF g2]
      show ?thesis
      proof (cases r4)
        case (Inl e)
        with td t g2 have "s' = s4" by simp
        with gr2 hr gr show ?thesis by simp
      next
        case (Inr ch')
        with td t g2 have nx: "nextTxData ops s4 (Some ch') = (r, s')" by simp
        from nextTxData_refs [OF nx] gr2 hr gr show ?thesis by simp
      qed
    qed
    with t Ok show ?thesis by simp
  qed
qed

theorem TxData_reconfiguration_order_witness:
  "TxData ex_ops ex_used ex_l1Head = Ok (nextTxData ex_ops ex_used (Some 0))
   \<and> cfgQueries (snd (nextTxData ex_ops ex_used (Some 0))) = cfgQueries ex_used
   \<and> TxData ex_ops ex_after_add ex_l1Head
       = Ok (nextTxData ex_ops (ex_ready\<lparr>cfgQueries := Suc (cfgQueries ex_ready)\<rparr>) (Some 0))
   \<and> (\<exists>r s'. TxData ex_ops ex_flip ex_l1Head = Ok (Inr r, s')
         \<and> channelQueue s' = [Suc 0]
         \<and> UseBlobs (defaultCfg s')
         \<and> cfgQueries s' = Suc (cfgQueries ex_flip))"
proof -
  have a: "\<not> NoneSubmitted ex_ops (store ex_used 0)"
    by (simp add: ex_used_def ex_defs mgr_defs Let_def)
  from TxData_reconfiguration_order
         [where ops = ex_ops and s = ex_used and l1Head = ex_l1Head and ch = 0 and ?s1.0 = ex_used]
       ex_used_ready_step a
  have 1: "TxData ex_ops ex_used ex_l1Head = Ok (nextTxData ex_ops ex_used (Some 0))
     \<and> cfgQueries (snd (nextTxData ex_ops ex_used (Some 0))) = cfgQueries ex_used"
    by simp
  have b: "NoneSubmitted ex_ops (store ex_ready 0)
      \<and> UseBlobs (cfgProvider ex_after_add (cfgQueries ex_after_add))
          = UseBlobs (defaultCfg ex_after_add)"
    by (simp add: ex_ready_def ex_defs mgr_defs Let_def)
  from TxData_reconfiguration_order
         [where ops = ex_ops and s = ex_after_add and l1Head = ex_l1Head and ch = 0
            and ?s1.0 = ex_ready]
       ex_ready_step b
  have 2: "TxData ex_ops ex_after_add ex_l1Head
       = Ok (nextTxData ex_ops (ex_ready\<lparr>cfgQueries := Suc (cfgQueries ex_ready)\<rparr>) (Some 0))"
    by simp
  have c: "NoneSubmitted ex_ops (store ex_flip_ready 0)
      \<and> UseBlobs (cfgProvider ex_flip (cfgQueries ex_flip)) \<noteq> UseBlobs (defaultCfg ex_flip)"
    by (simp add: ex_flip_ready_def ex_flip_def ex_flip_prov_def ex_defs mgr_defs Let_def)
  have d: "\<exists>s3. handleChannelInvalidated ex_ops
              (ex_flip_ready\<lparr>cfgQueries := Suc (cfgQueries ex_flip_ready)\<rparr>) 0 = Ok s3"
    by (simp add: ex_flip_ready_def ex_flip_def ex_flip_prov_def ex_defs mgr_defs Let_def)
  have e: "UseBlobs (cfgProvider ex_flip (cfgQueries ex_flip))"
    by (simp add: ex_flip_def ex_flip_prov_def ex_defs mgr_defs)
  from d obtain s3 where d': "handleChannelInvalidated ex_ops
              (ex_flip_ready\<lparr>cfgQueries := Suc (cfgQueries ex_flip_ready)\<rparr>) 0 = Ok s3" ..
  from TxData_reconfiguration_order
         [where ops = ex_ops and s = ex_flip and l1Head = ex_l1Head and ch = 0
            and ?s1.0 = ex_flip_ready]
       ex_flip_ready_step c d'
  have f: "\<forall>r s'. TxData ex_ops ex_flip ex_l1Head = Ok (r, s') \<longrightarrow>
              defaultCfg s' = cfgProvider ex_flip (cfgQueries ex_flip)
              \<and> cfgQueries s' = Suc (cfgQueries ex_flip)"
    by simp
  from ex_flip_result obtain r s' where
    t: "TxData ex_ops ex_flip ex_l1Head = Ok (Inr r, s')" and q: "channelQueue s' = [Suc 0]"
    by blast
  from f t have "defaultCfg s' = cfgProvider ex_flip (cfgQueries ex_flip)
              \<and> cfgQueries s' = Suc (cfgQueries ex_flip)" by blast
  with e t q have 3: "\<exists>r s'. TxData ex_ops ex_flip ex_l1Head = Ok (Inr r, s')
         \<and> channelQueue s' = [Suc 0]
         \<and> UseBlobs (defaultCfg s')
         \<and> cfgQueries s' = Suc (cfgQueries ex_flip)"
    by auto
  from 1 2 3 show ?thesis by simp
qed

text \<open>
  C1, as the claim states it, fails in its second case: with blocks 10 and 11 added and
  an empty channel queue, \<open>getReadyChannel\<close> creates channel 0, nothing of it has been
  submitted and the provider answers with the same \<open>UseBlobs\<close>; \<open>TxData\<close> returns the
  next frame, and the channel queue has changed from empty to holding channel 0.
\<close>

theorem TxData_same_DA_extends_queue:
  "getReadyChannel ex_ops ex_after_add ex_l1Head = Ok (Inr 0, ex_ready)
   \<and> NoneSubmitted ex_ops (store ex_ready 0)
   \<and> UseBlobs (cfgProvider ex_after_add (cfgQueries ex_after_add))
       = UseBlobs (defaultCfg ex_after_add)
   \<and> channelQueue ex_after_add = []
   \<and> TxData ex_ops ex_after_add ex_l1Head
       = Ok (nextTxData ex_ops (ex_ready\<lparr>cfgQueries := Suc (cfgQueries ex_ready)\<rparr>) (Some 0))
   \<and> channelQueue
        (snd (nextTxData ex_ops (ex_ready\<lparr>cfgQueries := Suc (cfgQueries ex_ready)\<rparr>) (Some 0)))
       = [0]"
  by (simp add: ex_ready_def ex_defs mgr_defs Let_def)

end
